theory Spec2Isabelle
  imports Main "HOL-Library.Word"
begin

section \<open>The Open JTalk backend of Speech Dispatcher (src/modules/openjtalk.c)\<close>

text \<open>
  The module keeps its selection in global variables, talks to the host framework, to the
  file system and to the engine subprocess, and jumps to three clean-up labels. The
  embedding makes each of these explicit:
  \<^item> the globals are a record that every function takes and returns;
  \<^item> every call that leaves the module (logging, the voice registry, the file system, the
    subprocess, the heap, the playback server) is recorded as an event, in the order the
    calls are made, so that a property such as "deleted exactly once" is a property of
    the event list;
  \<^item> what the outside world answers (does a file exist, does \<open>mkstemp\<close> succeed, what bytes a
    read delivers) is a record of answers, \<open>env\<close>;
  \<^item> an assertion failure and a division by zero end the process: they are outcomes of
    the model, not values of HOL's total division.
  Strings are values here: pointer aliasing between the settings and the module's
  variables and the freeing of strings are not tracked; the sample buffer is.
\<close>

subsection \<open>Data\<close>

type_synonym byte = "8 word"

text \<open>\<open>SPDVoiceType\<close> is a C enumeration; the module only passes it on.\<close>

type_synonym SPDVoiceType = int

text \<open>
  Modelled from the spec: the declaration of \<open>AudioTrack\<close> is in a header that is not among
  the sources. The spec gives its fields as bitsPerSample: uint16, numChannels: uint16,
  sampleRate: uint32, numSamples: uint32 and an owned byte buffer. \<open>samples\<close> holds the
  bytes that the read stored in the buffer; the size the buffer was allocated with is the
  \<open>Malloc\<close> event.
\<close>

record AudioTrack =
  bits :: "16 word"
  num_channels :: "16 word"
  sample_rate :: "32 word"
  num_samples :: "32 word"
  samples :: "byte list"

datatype AudioFormat = SPD_AUDIO_LE | SPD_AUDIO_BE

text \<open>
  The calls the module makes, as events. \<open>DBG\<close> carries the format string of the message
  (its arguments are not recorded, and the quotes around \<open>%s\<close> in the first message of a
  request are left out); \<open>Fread sz nmemb\<close> is a call of \<open>fread\<close> with these arguments;
  \<open>Malloc n\<close> and \<open>Free_samples\<close> are the allocation and release of \<open>track.samples\<close>.
  \<open>malloc\<close> is taken to succeed, as the source takes it.
\<close>

datatype event =
    DBG string
  | GetVoice string SPDVoiceType
  | ExistsVoice string
  | FileTest string
  | SpeakError
  | SpeakOk
  | EventBegin
  | EventEnd
  | StripSsml
  | Umask nat
  | Mkstemp string
  | Close_fd
  | Popen string
  | Fprintf string
  | Pclose
  | Fopen string
  | Fseek nat
  | Fread nat nat
  | Fclose
  | Malloc nat
  | Free_samples
  | Unlink string
  | TtsOutput AudioTrack AudioFormat

text \<open>How a call ends: it returns, or the process dies in it.\<close>

datatype outcome = Returned | AssertFailed | DivisionByZero | BufferOverrun

text \<open>
  \<open>msg_settings\<close> and \<open>msg_settings_old\<close> of the host framework: the three fields the
  module reads. A \<open>NULL\<close> string is \<open>None\<close>.
\<close>

record settings =
  voice_language :: "string option"
  voice_type :: SPDVoiceType
  voice_name :: "string option"

record globals =
  voice_search_paths :: "string list"
  openjtalk_msg_voice_str :: "string option"
  openjtalk_msg_language :: "string option"
  openjtalk_htsvoice_path :: "string option"
  OpenjtalkDictionaryDirectory :: string
  msg_settings :: settings
  msg_settings_old :: settings

text \<open>
  The answers of the collaborators. \<open>audio_fp off n\<close> is what the output file delivers to
  a read of \<open>n\<close> bytes at offset \<open>off\<close>; a file with fixed contents is \<open>regular_file\<close>.
\<close>

record env =
  module_getvoice :: "string \<Rightarrow> SPDVoiceType \<Rightarrow> string option"
  module_existsvoice :: "string \<Rightarrow> bool"
  g_file_test :: "string \<Rightarrow> bool"
  module_strip_ssml :: "string \<Rightarrow> string"
  mkstemp :: "string \<Rightarrow> string option"
  asprintf_ok :: bool
  popen_ok :: bool
  pclose_status :: int
  fopen_ok :: bool
  audio_fp :: "nat \<Rightarrow> nat \<Rightarrow> byte list"

definition regular_file :: "byte list \<Rightarrow> nat \<Rightarrow> nat \<Rightarrow> byte list" where
  "regular_file content off n = take n (drop off content)"

subsection \<open>Voice resolution\<close>

text \<open>\<open>VoiceFileSearchPath_cb\<close>: one more template, at the end of the array.\<close>

definition VoiceFileSearchPath_cb :: "string \<Rightarrow> globals \<Rightarrow> globals" where
  "VoiceFileSearchPath_cb str g = g\<lparr>voice_search_paths := voice_search_paths g @ [str]\<rparr>"

text \<open>
  GLib's \<open>g_string_replace\<close> with limit 0: every occurrence of the token \<open>tok\<close>, from left to right,
  is replaced, and the scan goes on after the replacement. The module calls it with
  the token \<open>$VOICE\<close>; for an empty token (which GLib treats specially and the module
  never passes) the string is left as it is.
\<close>

function g_string_replace :: "string \<Rightarrow> string \<Rightarrow> string \<Rightarrow> string" where
  "g_string_replace [] tok repl = []"
| "g_string_replace (c # cs) tok repl =
     (if tok \<noteq> [] \<and> take (length tok) (c # cs) = tok
      then repl @ g_string_replace (drop (length tok) (c # cs)) tok repl
      else c # g_string_replace cs tok repl)"
  by pat_completeness auto
termination
  by (relation "measure (\<lambda>(s, tok, repl). length s)") auto

text \<open>
  The loop of \<open>update_htsvoice_path\<close> over \<open>voice_search_paths[i]\<close>, \<open>i = 0, 1, ...\<close>: the
  list is what is left of the array. It returns the new \<open>openjtalk_htsvoice_path\<close>.
\<close>

fun search_paths :: "env \<Rightarrow> string \<Rightarrow> string list \<Rightarrow> string option \<times> event list" where
  "search_paths e v [] = (None, [])"
| "search_paths e v (t # ts) =
     (let htsvoice_path = g_string_replace t ''$VOICE'' v in
      if g_file_test e htsvoice_path
      then (Some htsvoice_path, [FileTest htsvoice_path])
      else (case search_paths e v ts of
              (r, tr) \<Rightarrow> (r, FileTest htsvoice_path # tr)))"

definition update_htsvoice_path :: "env \<Rightarrow> globals \<Rightarrow> globals \<times> event list" where
  "update_htsvoice_path e g =
     (let g1 = g\<lparr>openjtalk_htsvoice_path := None\<rparr> in
      case openjtalk_msg_voice_str g1 of
        None \<Rightarrow> (g1, [DBG ''update_htsvoice_path: openjtalk_msg_voice_str is NULL''])
      | Some v \<Rightarrow>
          (case search_paths e v (voice_search_paths g1) of
             (r, tr) \<Rightarrow> (g1\<lparr>openjtalk_htsvoice_path := r\<rparr>, tr)))"

text \<open>The setters. \<open>assert\<close> ends the process when its argument is \<open>NULL\<close>.\<close>

definition openjtalk_set_voice ::
  "env \<Rightarrow> SPDVoiceType \<Rightarrow> globals \<Rightarrow> outcome \<times> globals \<times> event list" where
  "openjtalk_set_voice e voice g =
     (case openjtalk_msg_language g of
        None \<Rightarrow> (AssertFailed, g, [DBG ''Setting voice type %d''])
      | Some lang \<Rightarrow>
          (let r = module_getvoice e lang voice;
               g1 = g\<lparr>openjtalk_msg_voice_str := r\<rparr>;
               t1 = [DBG ''Setting voice type %d'', GetVoice lang voice] @
                    (if r = None
                     then [DBG ''Invalid voice type specified or no voice available!'']
                     else [])
           in case update_htsvoice_path e g1 of
                (g2, t2) \<Rightarrow> (Returned, g2, t1 @ t2)))"

definition openjtalk_set_language ::
  "env \<Rightarrow> string option \<Rightarrow> globals \<Rightarrow> outcome \<times> globals \<times> event list" where
  "openjtalk_set_language e lang g =
     (let g1 = g\<lparr>openjtalk_msg_language := lang\<rparr> in
      case openjtalk_set_voice e (voice_type (msg_settings g1)) g1 of
        (oc, g2, t2) \<Rightarrow> (oc, g2, DBG ''Setting language %s'' # t2))"

definition openjtalk_set_synthesis_voice ::
  "env \<Rightarrow> string option \<Rightarrow> globals \<Rightarrow> outcome \<times> globals \<times> event list" where
  "openjtalk_set_synthesis_voice e name g =
     (case voice_name (msg_settings g) of
        None \<Rightarrow> (AssertFailed, g, [DBG ''Setting voice name %s (%s)''])
      | Some n \<Rightarrow>
          if module_existsvoice e n
          then (case update_htsvoice_path e (g\<lparr>openjtalk_msg_voice_str := Some n\<rparr>) of
                  (g2, t2) \<Rightarrow>
                    (Returned, g2, [DBG ''Setting voice name %s (%s)'', ExistsVoice n] @ t2))
          else (Returned, g, [DBG ''Setting voice name %s (%s)'', ExistsVoice n]))"

subsection \<open>The parameter-update step\<close>

text \<open>One call after another: the second is made only if the first returned.\<close>

definition seq ::
  "outcome \<times> globals \<times> event list \<Rightarrow> (globals \<Rightarrow> outcome \<times> globals \<times> event list)
     \<Rightarrow> outcome \<times> globals \<times> event list" where
  "seq r k =
     (case r of
        (oc, g, t) \<Rightarrow>
          if oc = Returned
          then (case k g of (oc', g', t') \<Rightarrow> (oc', g', t @ t'))
          else (oc, g, t))"

text \<open>
  Modelled from the spec: the macros \<open>UPDATE_PARAMETER\<close> and \<open>UPDATE_STRING_PARAMETER\<close> are
  defined in module_utils.h, which is not among the sources. The spec says that the
  selection is "mutated only by the parameter-update step preceding a speak attempt" and
  that a change of the language, the voice type or the voice name triggers re-resolution:
  a macro compares the requested value (\<open>msg_settings\<close>) with the one applied last
  (\<open>msg_settings_old\<close>), and on a difference records the requested value and calls the
  setter with it. A string setter is called with a string that is set (the setters assert
  it); a requested \<open>NULL\<close> is recorded and no setter runs. \<open>get\<close> and \<open>put\<close> select the
  field the macro is used on.
\<close>

definition UPDATE_PARAMETER ::
  "(settings \<Rightarrow> SPDVoiceType) \<Rightarrow> (SPDVoiceType \<Rightarrow> settings \<Rightarrow> settings)
     \<Rightarrow> (SPDVoiceType \<Rightarrow> globals \<Rightarrow> outcome \<times> globals \<times> event list)
     \<Rightarrow> globals \<Rightarrow> outcome \<times> globals \<times> event list" where
  "UPDATE_PARAMETER get put setter g =
     (if get (msg_settings_old g) \<noteq> get (msg_settings g)
      then setter (get (msg_settings g))
             (g\<lparr>msg_settings_old := put (get (msg_settings g)) (msg_settings_old g)\<rparr>)
      else (Returned, g, []))"

definition UPDATE_STRING_PARAMETER ::
  "(settings \<Rightarrow> string option) \<Rightarrow> (string option \<Rightarrow> settings \<Rightarrow> settings)
     \<Rightarrow> (string option \<Rightarrow> globals \<Rightarrow> outcome \<times> globals \<times> event list)
     \<Rightarrow> globals \<Rightarrow> outcome \<times> globals \<times> event list" where
  "UPDATE_STRING_PARAMETER get put setter g =
     (if get (msg_settings_old g) = None \<or> get (msg_settings g) = None
         \<or> get (msg_settings_old g) \<noteq> get (msg_settings g)
      then (case get (msg_settings g) of
              None \<Rightarrow> (Returned, g\<lparr>msg_settings_old := put None (msg_settings_old g)\<rparr>, [])
            | Some v \<Rightarrow>
                setter (Some v) (g\<lparr>msg_settings_old := put (Some v) (msg_settings_old g)\<rparr>))
      else (Returned, g, []))"

text \<open>Lines 181, 182 and 183 of \<open>module_speak_sync\<close>, and the three in a row.\<close>

definition update_language :: "env \<Rightarrow> globals \<Rightarrow> outcome \<times> globals \<times> event list" where
  "update_language e =
     UPDATE_STRING_PARAMETER voice_language (\<lambda>v st. st\<lparr>voice_language := v\<rparr>)
       (openjtalk_set_language e)"

definition update_voice_type :: "env \<Rightarrow> globals \<Rightarrow> outcome \<times> globals \<times> event list" where
  "update_voice_type e =
     UPDATE_PARAMETER voice_type (\<lambda>v st. st\<lparr>voice_type := v\<rparr>) (openjtalk_set_voice e)"

definition update_voice_name :: "env \<Rightarrow> globals \<Rightarrow> outcome \<times> globals \<times> event list" where
  "update_voice_name e =
     UPDATE_STRING_PARAMETER voice_name (\<lambda>v st. st\<lparr>voice_name := v\<rparr>)
       (openjtalk_set_synthesis_voice e)"

definition update_parameters :: "env \<Rightarrow> globals \<Rightarrow> outcome \<times> globals \<times> event list" where
  "update_parameters e g =
     seq (update_language e g)
       (\<lambda>g1. seq (update_voice_type e g1) (\<lambda>g2. update_voice_name e g2))"

subsection \<open>Reading the output file\<close>

definition WAV_START_BITS_PER_SAMPLE :: nat where "WAV_START_BITS_PER_SAMPLE = 34"
definition WAV_START_NUM_CHANNELS :: nat where "WAV_START_NUM_CHANNELS = 22"
definition WAV_START_SAMPLE_RATE :: nat where "WAV_START_SAMPLE_RATE = 24"
definition WAV_START_SIZE_OF_SAMPLES :: nat where "WAV_START_SIZE_OF_SAMPLES = 40"
definition WAV_START_SAMPLES :: nat where "WAV_START_SAMPLES = 44"

text \<open>
  \<open>fread(ptr, sz, nmemb, fp)\<close> at file position \<open>pos\<close>: the bytes stored at \<open>ptr\<close> (at
  most \<open>sz * nmemb\<close> bytes of what the file delivers) and the number of complete items,
  which is what \<open>fread\<close> returns.
\<close>

definition fread :: "(nat \<Rightarrow> nat \<Rightarrow> byte list) \<Rightarrow> nat \<Rightarrow> nat \<Rightarrow> nat \<Rightarrow> byte list \<times> nat" where
  "fread fp pos sz nmemb =
     (let got = take (sz * nmemb) (fp pos (sz * nmemb))
      in (got, if sz = 0 then 0 else length got div sz))"

text \<open>The bytes of a field as the machine reads them: the least significant byte first.\<close>

fun le_word :: "byte list \<Rightarrow> 'a::len word" where
  "le_word [] = 0"
| "le_word (b # bs) = ucast b + 256 * le_word bs"

text \<open>
  The calls \<open>evs\<close> are made, then the program goes on as \<open>rest\<close>. The three labels at the
  end of \<open>module_speak_sync\<close> are the calls still to be made from there.
\<close>

definition emit :: "event list \<Rightarrow> outcome \<times> event list \<Rightarrow> outcome \<times> event list" where
  "emit evs rest = (fst rest, evs @ snd rest)"

definition FINISH :: "outcome \<times> event list" where
  "FINISH = (Returned, [EventEnd, DBG ''done''])"

definition TEMPLATE_FINISH :: "string \<Rightarrow> outcome \<times> event list" where
  "TEMPLATE_FINISH template = emit [Unlink template] FINISH"

definition FP_FINISH :: "string \<Rightarrow> outcome \<times> event list" where
  "FP_FINISH template = emit [Fclose] (TEMPLATE_FINISH template)"

text \<open>
  Lines 292 to 309: the sample block. The size passed to \<open>malloc\<close> and the count passed to
  \<open>fread\<close> are computed in 32 bits, as the fields are. A read that stores more bytes than
  were allocated writes past the buffer.
\<close>

definition read_samples :: "env \<Rightarrow> string \<Rightarrow> AudioTrack \<Rightarrow> outcome \<times> event list" where
  "read_samples e template track =
     (let alloc = unat (num_samples track * ucast (num_channels track) * ucast (bits track) div 8);
          sz = unat (bits track div 8);
          nmemb = unat (num_samples track * ucast (num_channels track))
      in case fread (audio_fp e) WAV_START_SAMPLES sz nmemb of
           (got, ret) \<Rightarrow>
             emit [Fseek WAV_START_SAMPLES, Malloc alloc, Fread sz nmemb]
               (if alloc < length got then (BufferOverrun, [])
                else if ret \<noteq> nmemb
                then emit [DBG ''failed to read track.samples'', Free_samples]
                       (FP_FINISH template)
                else emit [DBG ''read track.samples'',
                           TtsOutput (track\<lparr>samples := got\<rparr>) SPD_AUDIO_LE,
                           DBG ''output finished'', Free_samples]
                       (FP_FINISH template)))"

text \<open>
  Lines 285 to 290: \<open>track.num_samples / (track.num_channels) / (track.bits / 8)\<close>. The
  source divides without a test; a divisor 0 ends the process.
\<close>

definition compute_num_samples :: "env \<Rightarrow> string \<Rightarrow> AudioTrack \<Rightarrow> outcome \<times> event list" where
  "compute_num_samples e template track =
     (if num_channels track = 0 \<or> bits track div 8 = 0 then (DivisionByZero, [])
      else emit [DBG ''read track.num_samples'',
                 DBG ''bits: %d num_channels: %d sample_rate: %d num_samples: %d'']
             (read_samples e template
                (track\<lparr>num_samples :=
                   num_samples track div ucast (num_channels track)
                     div ucast (bits track div 8)\<rparr>)))"

text \<open>
  Lines 239 to 312, the part of \<open>module_speak_sync\<close> that the spec calls \<open>extract\<close>: the
  four header fields, each by a seek and a read, then the division and the sample block.
\<close>

definition wav_extract :: "env \<Rightarrow> string \<Rightarrow> outcome \<times> event list" where
  "wav_extract e template =
     (let track0 = \<lparr>bits = 0, num_channels = 0, sample_rate = 0, num_samples = 0,
                    samples = []\<rparr>
      in
      case fread (audio_fp e) WAV_START_BITS_PER_SAMPLE 2 1 of (b1, ret1) \<Rightarrow>
      emit [Fseek WAV_START_BITS_PER_SAMPLE, Fread 2 1]
      (if ret1 \<noteq> 1 then emit [DBG ''failed to read track.bits''] (FP_FINISH template)
       else
       case fread (audio_fp e) WAV_START_NUM_CHANNELS 2 1 of (b2, ret2) \<Rightarrow>
       emit [DBG ''read track.bits'', Fseek WAV_START_NUM_CHANNELS, Fread 2 1]
       (if ret2 \<noteq> 1
        then emit [DBG ''failed to read track.num_channels''] (FP_FINISH template)
        else
        case fread (audio_fp e) WAV_START_SAMPLE_RATE 4 1 of (b3, ret3) \<Rightarrow>
        emit [DBG ''read track.num_channels'', Fseek WAV_START_SAMPLE_RATE, Fread 4 1]
        (if ret3 \<noteq> 1
         then emit [DBG ''failed to read track.sample_rate''] (FP_FINISH template)
         else
         case fread (audio_fp e) WAV_START_SIZE_OF_SAMPLES 4 1 of (b4, ret4) \<Rightarrow>
         emit [DBG ''read track.sample_rate'', Fseek WAV_START_SIZE_OF_SAMPLES, Fread 4 1]
         (if ret4 \<noteq> 1
          then emit [DBG ''failed to read track.num_samples''] (FP_FINISH template)
          else compute_num_samples e template
                 (track0\<lparr>bits := le_word b1, num_channels := le_word b2,
                         sample_rate := le_word b3, num_samples := le_word b4\<rparr>))))))"

subsection \<open>The speak request\<close>

definition tmp_template :: string where
  "tmp_template = ''/tmp/speechd-openjtalk-XXXXXX''"

definition command_line :: "string \<Rightarrow> string \<Rightarrow> string \<Rightarrow> string" where
  "command_line dict path template =
     ''open_jtalk -x '' @ dict @ '' -m '' @ path @ '' -ow '' @ template"

text \<open>
  Lines 191 to 253: from \<open>module_speak_ok\<close> to the opening of the output file. The mask
  \<open>0077\<close> is octal: 63.
\<close>

definition synthesize :: "env \<Rightarrow> string \<Rightarrow> globals \<Rightarrow> string \<Rightarrow> outcome \<times> event list" where
  "synthesize e data g path =
     emit [SpeakOk, EventBegin, StripSsml, Umask 63, Mkstemp tmp_template]
     (case mkstemp e tmp_template of
        None \<Rightarrow> emit [DBG ''temporary .wav file creation failed''] FINISH
      | Some template \<Rightarrow>
          emit [Close_fd]
          (if \<not> asprintf_ok e
           then emit [DBG ''failed to construct command line''] (TEMPLATE_FINISH template)
           else
           emit [DBG ''executing: %s'',
                 Popen (command_line (OpenjtalkDictionaryDirectory g) path template)]
           (if \<not> popen_ok e
            then emit [DBG ''failed to execute open_jtalk''] (TEMPLATE_FINISH template)
            else
            emit [Fprintf (module_strip_ssml e data), Pclose]
            (if pclose_status e \<noteq> 0
             then emit [DBG ''open_jtalk exited with non-zero code'']
                    (TEMPLATE_FINISH template)
             else
             emit [DBG ''output to %s'', Fopen template]
             (if \<not> fopen_ok e
              then emit [DBG ''failed to open wav file''] (TEMPLATE_FINISH template)
              else emit [DBG ''opened wav file''] (wav_extract e template))))))"

text \<open>
  \<open>module_speak_sync\<close>: the parameter-update step, the test of the resolved path, and the
  rest of the request. The globals do not change after the update step.
\<close>

definition module_speak_sync ::
  "env \<Rightarrow> string \<Rightarrow> globals \<Rightarrow> outcome \<times> globals \<times> event list" where
  "module_speak_sync e data g =
     (case update_parameters e g of
        (oc, g1, t1) \<Rightarrow>
          if oc \<noteq> Returned then (oc, g1, DBG ''speaking %s'' # t1)
          else (case (case openjtalk_htsvoice_path g1 of
                        None \<Rightarrow> (Returned, [DBG ''No voice specified'', SpeakError])
                      | Some path \<Rightarrow> synthesize e data g1 path) of
                  (oc2, t2) \<Rightarrow> (oc2, g1, DBG ''speaking %s'' # t1 @ t2)))"

subsection \<open>Notions used in the statements\<close>

text \<open>The template search for a voice identifier; no identifier, no path.\<close>

definition resolve :: "env \<Rightarrow> string list \<Rightarrow> string option \<Rightarrow> string option" where
  "resolve e templates ident =
     (case ident of
        None \<Rightarrow> None
      | Some v \<Rightarrow>
          find (g_file_test e) (map (\<lambda>t. g_string_replace t ''$VOICE'' v) templates))"

text \<open>
  What the parameter-update step sees as a change: the requested value is set and is not
  the value applied last.
\<close>

definition language_changed :: "globals \<Rightarrow> bool" where
  "language_changed g \<longleftrightarrow>
     voice_language (msg_settings g) \<noteq> None \<and>
     voice_language (msg_settings_old g) \<noteq> voice_language (msg_settings g)"

definition voice_type_changed :: "globals \<Rightarrow> bool" where
  "voice_type_changed g \<longleftrightarrow>
     voice_type (msg_settings_old g) \<noteq> voice_type (msg_settings g)"

definition name_changed :: "globals \<Rightarrow> bool" where
  "name_changed g \<longleftrightarrow>
     voice_name (msg_settings g) \<noteq> None \<and>
     voice_name (msg_settings_old g) \<noteq> voice_name (msg_settings g)"

definition name_registered :: "env \<Rightarrow> globals \<Rightarrow> bool" where
  "name_registered e g =
     (case voice_name (msg_settings g) of None \<Rightarrow> False | Some n \<Rightarrow> module_existsvoice e n)"

text \<open>
  The header as the four reads deliver it (\<open>num_samples\<close> is still the length of the data
  in bytes), and the number of samples the division makes of it.
\<close>

definition header :: "env \<Rightarrow> AudioTrack" where
  "header e =
     \<lparr>bits = le_word (fst (fread (audio_fp e) WAV_START_BITS_PER_SAMPLE 2 1)),
      num_channels = le_word (fst (fread (audio_fp e) WAV_START_NUM_CHANNELS 2 1)),
      sample_rate = le_word (fst (fread (audio_fp e) WAV_START_SAMPLE_RATE 4 1)),
      num_samples = le_word (fst (fread (audio_fp e) WAV_START_SIZE_OF_SAMPLES 4 1)),
      samples = []\<rparr>"

definition frames :: "AudioTrack \<Rightarrow> 32 word" where
  "frames h = num_samples h div ucast (num_channels h) div ucast (bits h div 8)"

text \<open>
  What the sample block is read with, from the header: the size of an item, the number of
  items, the size passed to \<open>malloc\<close>, and the bytes the read stores.
\<close>

definition sample_size :: "env \<Rightarrow> nat" where
  "sample_size e = unat (bits (header e) div 8)"

definition sample_count :: "env \<Rightarrow> nat" where
  "sample_count e = unat (frames (header e) * ucast (num_channels (header e)))"

definition allocated :: "env \<Rightarrow> nat" where
  "allocated e =
     unat (frames (header e) * ucast (num_channels (header e)) * ucast (bits (header e)) div 8)"

definition stored :: "env \<Rightarrow> byte list" where
  "stored e = fst (fread (audio_fp e) WAV_START_SAMPLES (sample_size e) (sample_count e))"

text \<open>A short read at one of the four header fields, and at the sample block.\<close>

definition header_short :: "env \<Rightarrow> bool" where
  "header_short e \<longleftrightarrow>
     snd (fread (audio_fp e) WAV_START_BITS_PER_SAMPLE 2 1) \<noteq> 1 \<or>
     snd (fread (audio_fp e) WAV_START_NUM_CHANNELS 2 1) \<noteq> 1 \<or>
     snd (fread (audio_fp e) WAV_START_SAMPLE_RATE 4 1) \<noteq> 1 \<or>
     snd (fread (audio_fp e) WAV_START_SIZE_OF_SAMPLES 4 1) \<noteq> 1"

definition samples_short :: "env \<Rightarrow> bool" where
  "samples_short e \<longleftrightarrow>
     snd (fread (audio_fp e) WAV_START_SAMPLES (sample_size e) (sample_count e))
       \<noteq> sample_count e"

text \<open>
  The calls of a request up to \<open>mkstemp\<close>, and the calls of the extraction up to the read of
  the fourth header field, when the first three reads are complete.
\<close>

definition request_start :: "event list" where
  "request_start = [SpeakOk, EventBegin, StripSsml, Umask 63, Mkstemp tmp_template]"

definition header_events :: "event list" where
  "header_events =
     [Fseek 34, Fread 2 1, DBG ''read track.bits'', Fseek 22, Fread 2 1,
      DBG ''read track.num_channels'', Fseek 24, Fread 4 1,
      DBG ''read track.sample_rate'', Fseek 40, Fread 4 1]"

text \<open>
  The failures of a request that end it before the division: no temporary file, no
  command line, no subprocess, an exit status other than 0, no output file to open, a
  short read in the header.
\<close>

definition early_failure :: "env \<Rightarrow> bool" where
  "early_failure e \<longleftrightarrow>
     mkstemp e tmp_template = None \<or> \<not> asprintf_ok e \<or> \<not> popen_ok e \<or>
     pclose_status e \<noteq> 0 \<or> \<not> fopen_ok e \<or> header_short e"

text \<open>The messages the request logs when it gives up.\<close>

definition failure_messages :: "string list" where
  "failure_messages =
     [''No voice specified'', ''temporary .wav file creation failed'',
      ''failed to construct command line'', ''failed to execute open_jtalk'',
      ''open_jtalk exited with non-zero code'', ''failed to open wav file'',
      ''failed to read track.bits'', ''failed to read track.num_channels'',
      ''failed to read track.sample_rate'', ''failed to read track.num_samples'',
      ''failed to read track.samples'']"

text \<open>Kinds of events: the heap, the playback server, the log, the voice selection.\<close>

fun is_heap :: "event \<Rightarrow> bool" where
  "is_heap (Malloc n) = True"
| "is_heap Free_samples = True"
| "is_heap _ = False"

fun is_TtsOutput :: "event \<Rightarrow> bool" where
  "is_TtsOutput (TtsOutput track format) = True"
| "is_TtsOutput _ = False"

fun is_failure :: "event \<Rightarrow> bool" where
  "is_failure (DBG m) = (m \<in> set failure_messages)"
| "is_failure _ = False"

fun is_selection_event :: "event \<Rightarrow> bool" where
  "is_selection_event (DBG m) = True"
| "is_selection_event (GetVoice lang voice) = True"
| "is_selection_event (ExistsVoice n) = True"
| "is_selection_event (FileTest p) = True"
| "is_selection_event _ = False"

fun is_GetVoice :: "event \<Rightarrow> bool" where
  "is_GetVoice (GetVoice lang voice) = True"
| "is_GetVoice _ = False"

definition occurrences :: "event \<Rightarrow> event list \<Rightarrow> nat" where
  "occurrences ev t = length (filter (\<lambda>x. x = ev) t)"

subsection \<open>A configuration, a selection and output files to run the model on\<close>

text \<open>
  A 44-byte header (2 channels, 48000 Hz, 16 bits, 400 bytes of data) and its samples;
  the same header with other values of the fields (of the data length, the low byte);
  files of one channel and 12 bits, of no channel, of 4 bits; a file that ends inside its
  header and one that ends inside its samples; a file of 48 bytes whose header announces
  \<open>0x20000000\<close> bytes of data for one channel of 16 bits.
\<close>

definition wav_header :: "byte \<Rightarrow> byte \<Rightarrow> byte \<Rightarrow> byte list" where
  "wav_header channels bps len =
     replicate 22 0 @ [channels, 0] @ [128, 187, 0, 0] @ replicate 6 0 @ [bps, 0] @
     replicate 4 0 @ [len, 0, 0, 0]"

definition example_wav :: "byte list" where
  "example_wav =
     replicate 22 0 @ [2, 0] @ [128, 187, 0, 0] @ replicate 6 0 @ [16, 0] @
     replicate 4 0 @ [144, 1, 0, 0] @ replicate 400 7"

definition twelve_bit_wav :: "byte list" where
  "twelve_bit_wav = wav_header 1 12 4 @ [1, 2, 3, 4]"

definition zero_channel_wav :: "byte list" where
  "zero_channel_wav = wav_header 0 16 4 @ [1, 2, 3, 4]"

definition four_bit_wav :: "byte list" where
  "four_bit_wav = wav_header 1 4 4 @ [1, 2, 3, 4]"

definition cut_in_header :: "byte list" where
  "cut_in_header = take 38 example_wav"

definition cut_in_samples :: "byte list" where
  "cut_in_samples = wav_header 2 16 8 @ [1, 2, 3, 4, 5]"

definition wrapped_size_wav :: "byte list" where
  "wrapped_size_wav =
     replicate 22 0 @ [1, 0] @ [128, 187, 0, 0] @ replicate 6 0 @ [16, 0] @
     replicate 4 0 @ [0, 0, 0, 32] @ [1, 2, 3, 4]"

definition example_env :: env where
  "example_env =
     \<lparr>module_getvoice = (\<lambda>l v. if l = ''ja'' then Some ''female1'' else None),
      module_existsvoice = (\<lambda>n. n = ''male1''),
      g_file_test =
        (\<lambda>p. p = ''/voices/female1.htsvoice'' \<or> p = ''/voices/male1.htsvoice''),
      module_strip_ssml = (\<lambda>d. d),
      mkstemp = (\<lambda>t. Some ''/tmp/speechd-openjtalk-a1b2c3''),
      asprintf_ok = True, popen_ok = True, pclose_status = 0, fopen_ok = True,
      audio_fp = regular_file example_wav\<rparr>"

text \<open>
  Two templates are configured. \<open>example_globals\<close> is the module before its first
  request, with Japanese requested. \<open>settled_globals\<close> is the module after a request made
  with the voice name male1, with the requested settings as they were in that request.
\<close>

definition example_globals :: globals where
  "example_globals =
     \<lparr>voice_search_paths = [''/opt/$VOICE/$VOICE.htsvoice'', ''/voices/$VOICE.htsvoice''],
      openjtalk_msg_voice_str = None, openjtalk_msg_language = None,
      openjtalk_htsvoice_path = None,
      OpenjtalkDictionaryDirectory = ''/var/lib/mecab/dic/open-jtalk'',
      msg_settings = \<lparr>voice_language = Some ''ja'', voice_type = 1, voice_name = None\<rparr>,
      msg_settings_old = \<lparr>voice_language = None, voice_type = 0, voice_name = None\<rparr>\<rparr>"

definition settled_globals :: globals where
  "settled_globals =
     \<lparr>voice_search_paths = [''/opt/$VOICE/$VOICE.htsvoice'', ''/voices/$VOICE.htsvoice''],
      openjtalk_msg_voice_str = Some ''male1'', openjtalk_msg_language = Some ''ja'',
      openjtalk_htsvoice_path = Some ''/voices/male1.htsvoice'',
      OpenjtalkDictionaryDirectory = ''/var/lib/mecab/dic/open-jtalk'',
      msg_settings =
        \<lparr>voice_language = Some ''ja'', voice_type = 1, voice_name = Some ''male1''\<rparr>,
      msg_settings_old =
        \<lparr>voice_language = Some ''ja'', voice_type = 1, voice_name = Some ''male1''\<rparr>\<rparr>"

text \<open>
  \<open>unset_globals\<close>: no language was ever set and none is requested, and a voice type is
  requested. \<open>stale_globals\<close>: after the request with male1, the name nobody is
  requested, which is not a registered voice. \<open>withdrawn_globals\<close>: after the request
  with male1, no language is requested any more.
\<close>

definition withdrawn_globals :: globals where
  "withdrawn_globals =
     settled_globals\<lparr>msg_settings :=
       \<lparr>voice_language = None, voice_type = 1, voice_name = Some ''male1''\<rparr>\<rparr>"

definition unset_globals :: globals where
  "unset_globals =
     example_globals\<lparr>msg_settings :=
       \<lparr>voice_language = None, voice_type = 1, voice_name = None\<rparr>\<rparr>"

definition stale_globals :: globals where
  "stale_globals =
     settled_globals\<lparr>msg_settings :=
       \<lparr>voice_language = Some ''ja'', voice_type = 1, voice_name = Some ''nobody''\<rparr>\<rparr>"

section \<open>Properties\<close>

subsection \<open>Voice resolution\<close>

text \<open>
  The configuration callback keeps the order of the configuration lines: this is the
  insertion order that the search follows.
\<close>

lemma VoiceFileSearchPath_cb_order:
  "voice_search_paths (foldl (\<lambda>g str. VoiceFileSearchPath_cb str g) g strs) =
     voice_search_paths g @ strs"
  by (induction strs arbitrary: g) (simp_all add: VoiceFileSearchPath_cb_def)

lemma search_paths_find:
  "fst (search_paths e v ts) =
     find (g_file_test e) (map (\<lambda>t. g_string_replace t ''$VOICE'' v) ts)"
  by (induction ts) (auto simp: Let_def split: prod.splits)

lemma update_htsvoice_path_find:
  "openjtalk_htsvoice_path (fst (update_htsvoice_path e g)) =
     (case openjtalk_msg_voice_str g of
        None \<Rightarrow> None
      | Some v \<Rightarrow> find (g_file_test e)
                  (map (\<lambda>t. g_string_replace t ''$VOICE'' v) (voice_search_paths g)))"
  by (auto simp: update_htsvoice_path_def search_paths_find [symmetric]
      split: option.splits prod.splits)

text \<open>
  C1. With a voice identifier set, \<open>update_htsvoice_path\<close> leaves in
  \<open>openjtalk_htsvoice_path\<close> the substituted path of the first template, in the order of
  the array, whose substituted path passes the file test, and no path exactly when no
  substituted path passes it; with no template the result is no path.
\<close>

theorem C1_first_existing_template:
  assumes "openjtalk_msg_voice_str g = Some v"
  shows "(\<forall>p. openjtalk_htsvoice_path (fst (update_htsvoice_path e g)) = Some p \<longleftrightarrow>
            (\<exists>i < length (voice_search_paths g).
               p = g_string_replace (voice_search_paths g ! i) ''$VOICE'' v \<and>
               g_file_test e p \<and>
               (\<forall>j < i. \<not> g_file_test e
                           (g_string_replace (voice_search_paths g ! j) ''$VOICE'' v)))) \<and>
         (openjtalk_htsvoice_path (fst (update_htsvoice_path e g)) = None \<longleftrightarrow>
            (\<forall>t \<in> set (voice_search_paths g).
               \<not> g_file_test e (g_string_replace t ''$VOICE'' v))) \<and>
         (voice_search_paths g = [] \<longrightarrow>
            openjtalk_htsvoice_path (fst (update_htsvoice_path e g)) = None)"
proof -
  let ?ps = "map (\<lambda>t. g_string_replace t ''$VOICE'' v) (voice_search_paths g)"
  have r: "openjtalk_htsvoice_path (fst (update_htsvoice_path e g)) = find (g_file_test e) ?ps"
    using assms by (simp add: update_htsvoice_path_find)
  have a: "\<And>p. find (g_file_test e) ?ps = Some p \<longleftrightarrow>
            (\<exists>i < length (voice_search_paths g).
               p = g_string_replace (voice_search_paths g ! i) ''$VOICE'' v \<and>
               g_file_test e p \<and>
               (\<forall>j < i. \<not> g_file_test e
                           (g_string_replace (voice_search_paths g ! j) ''$VOICE'' v)))"
    by (auto simp: find_Some_iff)
  have b: "find (g_file_test e) ?ps = None \<longleftrightarrow>
            (\<forall>t \<in> set (voice_search_paths g).
               \<not> g_file_test e (g_string_replace t ''$VOICE'' v))"
    by (auto simp: find_None_iff)
  show ?thesis unfolding r using a b by auto
qed

text \<open>
  The configured example: the first template gives a path that does not exist, the second
  one that does.
\<close>

theorem C1_first_existing_template_witness:
  "openjtalk_msg_voice_str settled_globals = Some ''male1'' \<and>
   \<not> g_file_test example_env ''/opt/male1/male1.htsvoice'' \<and>
   openjtalk_htsvoice_path (fst (update_htsvoice_path example_env settled_globals))
     = Some ''/voices/male1.htsvoice''"
proof -
  have v: "openjtalk_msg_voice_str settled_globals = Some ''male1''"
    by (simp add: settled_globals_def)
  have ts: "voice_search_paths settled_globals =
              [''/opt/$VOICE/$VOICE.htsvoice'', ''/voices/$VOICE.htsvoice'']"
    by (simp add: settled_globals_def)
  have s0: "g_string_replace ''/opt/$VOICE/$VOICE.htsvoice'' ''$VOICE'' ''male1''
              = ''/opt/male1/male1.htsvoice''"
    by simp
  have s1: "g_string_replace ''/voices/$VOICE.htsvoice'' ''$VOICE'' ''male1''
              = ''/voices/male1.htsvoice''"
    by simp
  have n0: "\<not> g_file_test example_env ''/opt/male1/male1.htsvoice''"
    by (simp add: example_env_def)
  have y1: "g_file_test example_env ''/voices/male1.htsvoice''"
    by (simp add: example_env_def)
  have "\<exists>i < length (voice_search_paths settled_globals).
          ''/voices/male1.htsvoice''
            = g_string_replace (voice_search_paths settled_globals ! i) ''$VOICE'' ''male1'' \<and>
          g_file_test example_env ''/voices/male1.htsvoice'' \<and>
          (\<forall>j < i. \<not> g_file_test example_env
             (g_string_replace (voice_search_paths settled_globals ! j) ''$VOICE'' ''male1''))"
    unfolding ts using s0 s1 n0 y1 by (intro exI [of _ 1]) (simp add: less_Suc_eq)
  with C1_first_existing_template [OF v, of example_env] v n0 show ?thesis
    by blast
qed

subsection \<open>The parameter-update step\<close>

lemma update_htsvoice_path_globals:
  "fst (update_htsvoice_path e g) =
     g\<lparr>openjtalk_htsvoice_path :=
         resolve e (voice_search_paths g) (openjtalk_msg_voice_str g)\<rparr>"
  by (auto simp: update_htsvoice_path_def resolve_def search_paths_find [symmetric]
      split: option.splits prod.splits)

lemma search_paths_events:
  "search_paths e v ts = (r, tr) \<Longrightarrow> ev \<in> set tr \<Longrightarrow> \<exists>p. ev = FileTest p"
  by (induction ts arbitrary: r tr) (auto simp: Let_def split: if_splits prod.splits)

lemma update_htsvoice_path_events:
  "update_htsvoice_path e g = (g', tr) \<Longrightarrow> ev \<in> set tr \<Longrightarrow>
   is_selection_event ev \<and> \<not> is_GetVoice ev"
  by (cases "openjtalk_msg_voice_str g")
     (auto simp: update_htsvoice_path_def Let_def split: prod.splits
           dest: search_paths_events)

lemma set_voice_globals:
  "openjtalk_msg_language g = Some l \<Longrightarrow>
   fst (openjtalk_set_voice e voice g) = Returned \<and>
   fst (snd (openjtalk_set_voice e voice g)) =
     g\<lparr>openjtalk_msg_voice_str := module_getvoice e l voice,
       openjtalk_htsvoice_path :=
         resolve e (voice_search_paths g) (module_getvoice e l voice)\<rparr>"
  using update_htsvoice_path_globals [of e "g\<lparr>openjtalk_msg_voice_str := module_getvoice e l voice\<rparr>"]
  by (auto simp: openjtalk_set_voice_def Let_def split: prod.splits)

lemma set_voice_unset:
  "openjtalk_msg_language g = None \<Longrightarrow>
   openjtalk_set_voice e voice g = (AssertFailed, g, [DBG ''Setting voice type %d''])"
  by (simp add: openjtalk_set_voice_def)

lemma set_synthesis_voice_globals:
  "voice_name (msg_settings g) = Some n \<Longrightarrow>
   fst (openjtalk_set_synthesis_voice e name g) = Returned \<and>
   fst (snd (openjtalk_set_synthesis_voice e name g)) =
     (if module_existsvoice e n
      then g\<lparr>openjtalk_msg_voice_str := Some n,
             openjtalk_htsvoice_path := resolve e (voice_search_paths g) (Some n)\<rparr>
      else g)"
  using update_htsvoice_path_globals [of e "g\<lparr>openjtalk_msg_voice_str := Some n\<rparr>"]
  by (auto simp: openjtalk_set_synthesis_voice_def split: prod.splits)




lemma update_language_outcome: "fst (update_language e g) = Returned"
  by (simp add: update_language_def UPDATE_STRING_PARAMETER_def openjtalk_set_language_def
      split_beta Let_def set_voice_globals split: option.splits)

lemma update_language_globals:
  "fst (snd (update_language e g)) =
     (case voice_language (msg_settings g) of
        None \<Rightarrow> g\<lparr>msg_settings_old := (msg_settings_old g)\<lparr>voice_language := None\<rparr>\<rparr>
      | Some l \<Rightarrow>
          if voice_language (msg_settings_old g) = Some l then g
          else g\<lparr>msg_settings_old := (msg_settings_old g)\<lparr>voice_language := Some l\<rparr>,
                 openjtalk_msg_language := Some l,
                 openjtalk_msg_voice_str := module_getvoice e l (voice_type (msg_settings g)),
                 openjtalk_htsvoice_path :=
                   resolve e (voice_search_paths g)
                     (module_getvoice e l (voice_type (msg_settings g)))\<rparr>)"
proof (cases "voice_language (msg_settings g)")
  case None
  then show ?thesis
    by (simp add: update_language_def UPDATE_STRING_PARAMETER_def)
next
  case (Some l)
  show ?thesis
  proof (cases "voice_language (msg_settings_old g) = Some l")
    case True
    with Some show ?thesis
      by (simp add: update_language_def UPDATE_STRING_PARAMETER_def)
  next
    case False
    let ?g1 = "g\<lparr>msg_settings_old := (msg_settings_old g)\<lparr>voice_language := Some l\<rparr>,
                  openjtalk_msg_language := Some l\<rparr>"
    have "update_language e g = (case openjtalk_set_voice e (voice_type (msg_settings g)) ?g1 of
            (oc, g2, t2) \<Rightarrow> (oc, g2, DBG ''Setting language %s'' # t2))"
      using Some False
      by (auto simp: update_language_def UPDATE_STRING_PARAMETER_def openjtalk_set_language_def)
    then have "fst (snd (update_language e g)) =
                 fst (snd (openjtalk_set_voice e (voice_type (msg_settings g)) ?g1))"
      by (simp add: split_beta)
    with set_voice_globals [of ?g1 l e "voice_type (msg_settings g)"] Some False
    show ?thesis by simp
  qed
qed

lemma update_voice_type_unchanged:
  "voice_type (msg_settings_old g) = voice_type (msg_settings g) \<Longrightarrow>
   update_voice_type e g = (Returned, g, [])"
  by (simp add: update_voice_type_def UPDATE_PARAMETER_def)

lemma update_voice_type_unset:
  "voice_type (msg_settings_old g) \<noteq> voice_type (msg_settings g) \<Longrightarrow>
   openjtalk_msg_language g = None \<Longrightarrow>
   fst (update_voice_type e g) = AssertFailed"
  by (simp add: update_voice_type_def UPDATE_PARAMETER_def openjtalk_set_voice_def)

lemma update_voice_type_changed:
  assumes "voice_type (msg_settings_old g) \<noteq> voice_type (msg_settings g)"
    and "openjtalk_msg_language g = Some l"
  shows "fst (update_voice_type e g) = Returned \<and>
         fst (snd (update_voice_type e g)) =
           g\<lparr>msg_settings_old :=
               (msg_settings_old g)\<lparr>voice_type := voice_type (msg_settings g)\<rparr>,
             openjtalk_msg_voice_str := module_getvoice e l (voice_type (msg_settings g)),
             openjtalk_htsvoice_path :=
               resolve e (voice_search_paths g)
                 (module_getvoice e l (voice_type (msg_settings g)))\<rparr>"
proof -
  let ?g1 = "g\<lparr>msg_settings_old :=
                 (msg_settings_old g)\<lparr>voice_type := voice_type (msg_settings g)\<rparr>\<rparr>"
  have "update_voice_type e g = openjtalk_set_voice e (voice_type (msg_settings g)) ?g1"
    using assms by (simp add: update_voice_type_def UPDATE_PARAMETER_def)
  with set_voice_globals [of ?g1 l e "voice_type (msg_settings g)"] assms
  show ?thesis by simp
qed

lemma update_voice_name_outcome: "fst (update_voice_name e g) = Returned"
  by (simp add: update_voice_name_def UPDATE_STRING_PARAMETER_def
      set_synthesis_voice_globals split: option.splits)

lemma update_voice_name_globals:
  "fst (snd (update_voice_name e g)) =
     (case voice_name (msg_settings g) of
        None \<Rightarrow> g\<lparr>msg_settings_old := (msg_settings_old g)\<lparr>voice_name := None\<rparr>\<rparr>
      | Some n \<Rightarrow>
          if voice_name (msg_settings_old g) = Some n then g
          else if module_existsvoice e n
          then g\<lparr>msg_settings_old := (msg_settings_old g)\<lparr>voice_name := Some n\<rparr>,
                 openjtalk_msg_voice_str := Some n,
                 openjtalk_htsvoice_path := resolve e (voice_search_paths g) (Some n)\<rparr>
          else g\<lparr>msg_settings_old := (msg_settings_old g)\<lparr>voice_name := Some n\<rparr>\<rparr>)"
proof (cases "voice_name (msg_settings g)")
  case None
  then show ?thesis
    by (simp add: update_voice_name_def UPDATE_STRING_PARAMETER_def)
next
  case (Some n)
  show ?thesis
  proof (cases "voice_name (msg_settings_old g) = Some n")
    case True
    with Some show ?thesis
      by (simp add: update_voice_name_def UPDATE_STRING_PARAMETER_def)
  next
    case False
    let ?g1 = "g\<lparr>msg_settings_old := (msg_settings_old g)\<lparr>voice_name := Some n\<rparr>\<rparr>"
    have "update_voice_name e g = openjtalk_set_synthesis_voice e (Some n) ?g1"
      using Some False by (auto simp: update_voice_name_def UPDATE_STRING_PARAMETER_def)
    with set_synthesis_voice_globals [of ?g1 n e "Some n"] Some False
    show ?thesis by simp
  qed
qed


lemma update_parameters_outcome:
  "fst (update_parameters e g) = fst (update_voice_type e (fst (snd (update_language e g))))"
  by (simp add: update_parameters_def seq_def split_beta update_language_outcome
      update_voice_name_outcome)

lemma update_parameters_globals:
  "fst (update_parameters e g) = Returned \<Longrightarrow>
   fst (snd (update_parameters e g)) =
     fst (snd (update_voice_name e
       (fst (snd (update_voice_type e (fst (snd (update_language e g))))))))"
  by (simp add: update_parameters_def seq_def split_beta update_language_outcome
      split: if_splits)


lemma update_voice_type_outcome:
  "fst (update_voice_type e g) = Returned \<longleftrightarrow>
     voice_type (msg_settings_old g) = voice_type (msg_settings g) \<or>
     openjtalk_msg_language g \<noteq> None"
proof (cases "voice_type (msg_settings_old g) = voice_type (msg_settings g)")
  case True
  then show ?thesis by (simp add: update_voice_type_unchanged)
next
  case False
  show ?thesis
  proof (cases "openjtalk_msg_language g")
    case None
    with False show ?thesis by (simp add: update_voice_type_unset)
  next
    case (Some l)
    with False show ?thesis by (simp add: update_voice_type_changed)
  qed
qed

lemma update_voice_type_globals:
  "fst (update_voice_type e g) = Returned \<Longrightarrow>
   fst (snd (update_voice_type e g)) =
     (if voice_type (msg_settings_old g) = voice_type (msg_settings g) then g
      else case openjtalk_msg_language g of
             None \<Rightarrow> g
           | Some l \<Rightarrow>
               g\<lparr>msg_settings_old :=
                    (msg_settings_old g)\<lparr>voice_type := voice_type (msg_settings g)\<rparr>,
                 openjtalk_msg_voice_str := module_getvoice e l (voice_type (msg_settings g)),
                 openjtalk_htsvoice_path :=
                   resolve e (voice_search_paths g)
                     (module_getvoice e l (voice_type (msg_settings g)))\<rparr>)"
proof (cases "voice_type (msg_settings_old g) = voice_type (msg_settings g)")
  case True
  then show ?thesis by (simp add: update_voice_type_unchanged)
next
  case False
  assume r: "fst (update_voice_type e g) = Returned"
  show ?thesis
  proof (cases "openjtalk_msg_language g")
    case None
    with False r show ?thesis by (simp add: update_voice_type_unset)
  next
    case (Some l)
    with False show ?thesis by (simp add: update_voice_type_changed)
  qed
qed

text \<open>
  C7, as amended. A change is a requested value that is set and is not the one applied
  last. When the parameter-update step returns: a voice name that changed to a registered
  voice becomes the identifier, and the path is the result of the template search for it;
  otherwise a changed language or voice type makes the identifier the one looked up for
  the language now set and the requested voice type, and the path the result of the search
  for it; in every other case (a name that is not a registered voice, a language or a name
  that is no longer requested, nothing changed) the identifier and the path stay as they
  were.
\<close>

theorem C7_changed_selection_resolved_again:
  assumes "update_parameters e g = (Returned, g', t)"
  shows "(name_changed g \<and> name_registered e g \<longrightarrow>
            openjtalk_msg_voice_str g' = voice_name (msg_settings g) \<and>
            openjtalk_htsvoice_path g' =
              resolve e (voice_search_paths g) (voice_name (msg_settings g))) \<and>
         (\<not> (name_changed g \<and> name_registered e g) \<and>
          (language_changed g \<or> voice_type_changed g) \<longrightarrow>
            (\<exists>l. openjtalk_msg_language g' = Some l \<and>
                 (language_changed g \<longrightarrow> voice_language (msg_settings g) = Some l) \<and>
                 (\<not> language_changed g \<longrightarrow> openjtalk_msg_language g = Some l) \<and>
                 openjtalk_msg_voice_str g' =
                   module_getvoice e l (voice_type (msg_settings g)) \<and>
                 openjtalk_htsvoice_path g' =
                   resolve e (voice_search_paths g)
                     (module_getvoice e l (voice_type (msg_settings g))))) \<and>
         (\<not> (name_changed g \<and> name_registered e g) \<and>
          \<not> language_changed g \<and> \<not> voice_type_changed g \<longrightarrow>
            openjtalk_msg_voice_str g' = openjtalk_msg_voice_str g \<and>
            openjtalk_htsvoice_path g' = openjtalk_htsvoice_path g)"
proof -
  define g1 where "g1 = fst (snd (update_language e g))"
  define g2 where "g2 = fst (snd (update_voice_type e g1))"
  from assms have r: "fst (update_parameters e g) = Returned"
    and g': "g' = fst (snd (update_parameters e g))"
    by simp_all
  from r have r2: "fst (update_voice_type e g1) = Returned"
    by (simp add: update_parameters_outcome g1_def)
  have g'2: "g' = fst (snd (update_voice_name e g2))"
    using update_parameters_globals [OF r] by (simp add: g' g1_def g2_def)
  note s1 = update_language_globals [of e g, folded g1_def]
  note s2 = update_voice_type_globals [OF r2, folded g2_def]
  note o2 = update_voice_type_outcome [of e g1]
  note s3 = update_voice_name_globals [of e g2, folded g'2]
  have f1: "msg_settings g1 = msg_settings g" "voice_search_paths g1 = voice_search_paths g"
    "voice_type (msg_settings_old g1) = voice_type (msg_settings_old g)"
    "voice_name (msg_settings_old g1) = voice_name (msg_settings_old g)"
    unfolding s1 by (simp_all split: option.splits)
  have f2: "msg_settings g2 = msg_settings g" "voice_search_paths g2 = voice_search_paths g"
    "voice_name (msg_settings_old g2) = voice_name (msg_settings_old g)"
    "openjtalk_msg_language g2 = openjtalk_msg_language g1"
    unfolding s2 using f1 by (simp_all split: option.splits)
  have a: "openjtalk_msg_voice_str g' = voice_name (msg_settings g) \<and>
           openjtalk_htsvoice_path g' =
             resolve e (voice_search_paths g) (voice_name (msg_settings g))"
    if "name_changed g" "name_registered e g"
    using that unfolding s3
    by (auto simp: f2 name_changed_def name_registered_def split: option.splits)
  have keep: "openjtalk_msg_voice_str g' = openjtalk_msg_voice_str g2 \<and>
              openjtalk_htsvoice_path g' = openjtalk_htsvoice_path g2"
    if "\<not> (name_changed g \<and> name_registered e g)"
    using that unfolding s3
    by (auto simp: f2 name_changed_def name_registered_def split: option.splits)
  have lang': "openjtalk_msg_language g' = openjtalk_msg_language g1"
    unfolding s3 using f2 by (simp split: option.splits)
  have l1: "openjtalk_msg_language g1 = voice_language (msg_settings g) \<and>
            openjtalk_msg_voice_str g1 =
              module_getvoice e (the (voice_language (msg_settings g))) (voice_type (msg_settings g)) \<and>
            openjtalk_htsvoice_path g1 =
              resolve e (voice_search_paths g)
                (module_getvoice e (the (voice_language (msg_settings g))) (voice_type (msg_settings g)))"
    if "language_changed g"
    using that unfolding s1 by (auto simp: language_changed_def split: option.splits)
  have l0: "openjtalk_msg_language g1 = openjtalk_msg_language g \<and>
            openjtalk_msg_voice_str g1 = openjtalk_msg_voice_str g \<and>
            openjtalk_htsvoice_path g1 = openjtalk_htsvoice_path g"
    if "\<not> language_changed g"
    using that unfolding s1 by (auto simp: language_changed_def split: option.splits)
  have v1: "\<exists>l. openjtalk_msg_language g1 = Some l \<and>
            openjtalk_msg_voice_str g2 = module_getvoice e l (voice_type (msg_settings g)) \<and>
            openjtalk_htsvoice_path g2 =
              resolve e (voice_search_paths g) (module_getvoice e l (voice_type (msg_settings g)))"
    if "voice_type_changed g"
    using that o2 r2 unfolding s2
    by (auto simp: f1 voice_type_changed_def split: option.splits)
  have v0: "g2 = g1" if "\<not> voice_type_changed g"
    using that unfolding s2 by (simp add: f1 voice_type_changed_def)
  have b: "\<exists>l. openjtalk_msg_language g' = Some l \<and>
                 (language_changed g \<longrightarrow> voice_language (msg_settings g) = Some l) \<and>
                 (\<not> language_changed g \<longrightarrow> openjtalk_msg_language g = Some l) \<and>
                 openjtalk_msg_voice_str g' =
                   module_getvoice e l (voice_type (msg_settings g)) \<and>
                 openjtalk_htsvoice_path g' =
                   resolve e (voice_search_paths g)
                     (module_getvoice e l (voice_type (msg_settings g)))"
    if n: "\<not> (name_changed g \<and> name_registered e g)"
      and c: "language_changed g \<or> voice_type_changed g"
  proof (cases "voice_type_changed g")
    case True
    from v1 [OF True] obtain l where l: "openjtalk_msg_language g1 = Some l"
      "openjtalk_msg_voice_str g2 = module_getvoice e l (voice_type (msg_settings g))"
      "openjtalk_htsvoice_path g2 =
         resolve e (voice_search_paths g) (module_getvoice e l (voice_type (msg_settings g)))"
      by blast
    show ?thesis
      using l keep [OF n] lang' l1 l0 by (intro exI [of _ l]) auto
  next
    case False
    with c have lc: "language_changed g" by simp
    then obtain l where l: "voice_language (msg_settings g) = Some l"
      by (auto simp: language_changed_def)
    show ?thesis
      using l keep [OF n] lang' l1 [OF lc] v0 [OF False] lc by (intro exI [of _ l]) auto
  qed
  have c: "openjtalk_msg_voice_str g' = openjtalk_msg_voice_str g \<and>
           openjtalk_htsvoice_path g' = openjtalk_htsvoice_path g"
    if "\<not> (name_changed g \<and> name_registered e g)" "\<not> language_changed g"
      "\<not> voice_type_changed g"
    using keep [OF that(1)] l0 [OF that(2)] v0 [OF that(3)] by simp
  show ?thesis using a b c by blast
qed

subsection \<open>Arithmetic of the header fields\<close>

lemma unat_ucast_16_32: "unat (ucast (w :: 16 word) :: 32 word) = unat w"
proof -
  have "unat w < 2 ^ 16" using unsigned_less [of w] by simp
  then have "unat w < 2 ^ 32" by simp
  then show ?thesis by (simp add: unsigned_ucast_eq take_bit_nat_eq_self)
qed

lemma unat_frames:
  "unat (frames h) = unat (num_samples h) div unat (num_channels h) div (unat (bits h) div 8)"
  by (simp add: frames_def unat_div unat_ucast_16_32)

lemma frames_le:
  "unat (frames h) * unat (num_channels h) * (unat (bits h) div 8) \<le> unat (num_samples h)"
proof -
  let ?a = "unat (num_samples h)" and ?c = "unat (num_channels h)" and ?b = "unat (bits h) div 8"
  have "?a div ?c div ?b * ?c * ?b = (?a div ?c div ?b * ?b) * ?c" by (simp add: ac_simps)
  also have "\<dots> \<le> (?a div ?c) * ?c" by (intro mult_le_mono1) simp
  also have "\<dots> \<le> ?a" by simp
  finally show ?thesis by (simp add: unat_frames)
qed

lemma frames_times_channels:
  "unat (frames h * ucast (num_channels h)) = unat (frames h) * unat (num_channels h)"
proof -
  let ?a = "unat (num_samples h)" and ?c = "unat (num_channels h)" and ?b = "unat (bits h) div 8"
  have "unat (frames h) * ?c \<le> (?a div ?c) * ?c"
    unfolding unat_frames by (intro mult_le_mono1) simp
  also have "\<dots> \<le> ?a" by simp
  also have "\<dots> < 2 ^ 32" using unsigned_less [of "num_samples h"] by simp
  finally have "unat (frames h) * unat (ucast (num_channels h) :: 32 word) < 2 ^ LENGTH(32)"
    by (simp add: unat_ucast_16_32)
  then show ?thesis
    by (simp add: unat_mult_lem [THEN iffD1] unat_ucast_16_32)
qed

lemma bits_div_8_zero: "(w :: 16 word) div 8 = 0 \<longleftrightarrow> unat w < 8"
proof -
  have "w div 8 = 0 \<longleftrightarrow> unat (w div 8) = 0" by (simp add: unat_eq_0)
  also have "\<dots> \<longleftrightarrow> unat w < 8" by (simp add: unat_div div_eq_0_iff)
  finally show ?thesis .
qed

subsection \<open>The paths of the extraction\<close>

lemmas wav_offsets =
  WAV_START_BITS_PER_SAMPLE_def WAV_START_NUM_CHANNELS_def WAV_START_SAMPLE_RATE_def
  WAV_START_SIZE_OF_SAMPLES_def WAV_START_SAMPLES_def

lemmas labels = emit_def FINISH_def TEMPLATE_FINISH_def FP_FINISH_def

lemma wav_extract_short_bits:
  "snd (fread (audio_fp e) 34 2 1) \<noteq> 1 \<Longrightarrow>
   wav_extract e t =
     (Returned, [Fseek 34, Fread 2 1, DBG ''failed to read track.bits'',
                 Fclose, Unlink t, EventEnd, DBG ''done''])"
  by (simp add: wav_extract_def wav_offsets labels split_beta)

lemma wav_extract_short_channels:
  "snd (fread (audio_fp e) 34 2 1) = 1 \<Longrightarrow> snd (fread (audio_fp e) 22 2 1) \<noteq> 1 \<Longrightarrow>
   wav_extract e t =
     (Returned, [Fseek 34, Fread 2 1, DBG ''read track.bits'', Fseek 22, Fread 2 1,
                 DBG ''failed to read track.num_channels'',
                 Fclose, Unlink t, EventEnd, DBG ''done''])"
  by (simp add: wav_extract_def wav_offsets labels split_beta)

lemma wav_extract_short_rate:
  "snd (fread (audio_fp e) 34 2 1) = 1 \<Longrightarrow> snd (fread (audio_fp e) 22 2 1) = 1 \<Longrightarrow>
   snd (fread (audio_fp e) 24 4 1) \<noteq> 1 \<Longrightarrow>
   wav_extract e t =
     (Returned, [Fseek 34, Fread 2 1, DBG ''read track.bits'', Fseek 22, Fread 2 1,
                 DBG ''read track.num_channels'', Fseek 24, Fread 4 1,
                 DBG ''failed to read track.sample_rate'',
                 Fclose, Unlink t, EventEnd, DBG ''done''])"
  by (simp add: wav_extract_def wav_offsets labels split_beta)

lemma wav_extract_short_size:
  "snd (fread (audio_fp e) 34 2 1) = 1 \<Longrightarrow> snd (fread (audio_fp e) 22 2 1) = 1 \<Longrightarrow>
   snd (fread (audio_fp e) 24 4 1) = 1 \<Longrightarrow> snd (fread (audio_fp e) 40 4 1) \<noteq> 1 \<Longrightarrow>
   wav_extract e t =
     (Returned, header_events @ [DBG ''failed to read track.num_samples'',
                 Fclose, Unlink t, EventEnd, DBG ''done''])"
  by (simp add: wav_extract_def wav_offsets labels split_beta header_events_def)

lemma wav_extract_header_read:
  "\<not> header_short e \<Longrightarrow>
   wav_extract e t = emit header_events (compute_num_samples e t (header e))"
  by (simp add: wav_extract_def header_short_def header_def wav_offsets emit_def split_beta
      header_events_def)

lemma compute_num_samples_zero:
  "num_channels h = 0 \<or> bits h div 8 = 0 \<Longrightarrow>
   compute_num_samples e t h = (DivisionByZero, [])"
  by (simp add: compute_num_samples_def)

lemma compute_num_samples_nonzero:
  "num_channels h \<noteq> 0 \<Longrightarrow> bits h div 8 \<noteq> 0 \<Longrightarrow>
   compute_num_samples e t h =
     emit [DBG ''read track.num_samples'',
           DBG ''bits: %d num_channels: %d sample_rate: %d num_samples: %d'']
       (read_samples e t (h\<lparr>num_samples := frames h\<rparr>))"
  by (simp add: compute_num_samples_def frames_def)


lemma read_samples_overrun:
  "num_channels (header e) \<noteq> 0 \<Longrightarrow> bits (header e) div 8 \<noteq> 0 \<Longrightarrow>
   allocated e < length (stored e) \<Longrightarrow>
   read_samples e t ((header e)\<lparr>num_samples := frames (header e)\<rparr>) =
     (BufferOverrun, [Fseek 44, Malloc (allocated e), Fread (sample_size e) (sample_count e)])"
  by (simp add: read_samples_def Let_def split_beta emit_def wav_offsets allocated_def
      stored_def sample_size_def sample_count_def)

lemma read_samples_short:
  "\<not> allocated e < length (stored e) \<Longrightarrow> samples_short e \<Longrightarrow>
   read_samples e t ((header e)\<lparr>num_samples := frames (header e)\<rparr>) =
     (Returned, [Fseek 44, Malloc (allocated e), Fread (sample_size e) (sample_count e),
                 DBG ''failed to read track.samples'', Free_samples,
                 Fclose, Unlink t, EventEnd, DBG ''done''])"
  by (simp add: read_samples_def Let_def split_beta labels wav_offsets allocated_def
      stored_def sample_size_def sample_count_def samples_short_def)

lemma read_samples_delivered:
  "\<not> allocated e < length (stored e) \<Longrightarrow> \<not> samples_short e \<Longrightarrow>
   read_samples e t ((header e)\<lparr>num_samples := frames (header e)\<rparr>) =
     (Returned, [Fseek 44, Malloc (allocated e), Fread (sample_size e) (sample_count e),
                 DBG ''read track.samples'',
                 TtsOutput ((header e)\<lparr>num_samples := frames (header e), samples := stored e\<rparr>)
                   SPD_AUDIO_LE,
                 DBG ''output finished'', Free_samples,
                 Fclose, Unlink t, EventEnd, DBG ''done''])"
  by (simp add: read_samples_def Let_def split_beta labels wav_offsets allocated_def
      stored_def sample_size_def sample_count_def samples_short_def)

lemma wav_extract_cases [case_names short_header zero overrun short_samples delivered]:
  obtains
    pre m where "header_short e"
      "wav_extract e t = (Returned, pre @ [DBG m, Fclose, Unlink t, EventEnd, DBG ''done''])"
      "set pre \<subseteq> set header_events"
      "m \<in> {''failed to read track.bits'', ''failed to read track.num_channels'',
             ''failed to read track.sample_rate'', ''failed to read track.num_samples''}"
  | "\<not> header_short e" "num_channels (header e) = 0 \<or> bits (header e) div 8 = 0"
      "wav_extract e t = (DivisionByZero, header_events)"
  | "\<not> header_short e" "num_channels (header e) \<noteq> 0" "bits (header e) div 8 \<noteq> 0"
      "allocated e < length (stored e)"
      "wav_extract e t =
         (BufferOverrun,
          header_events @
          [DBG ''read track.num_samples'',
           DBG ''bits: %d num_channels: %d sample_rate: %d num_samples: %d'',
           Fseek 44, Malloc (allocated e), Fread (sample_size e) (sample_count e)])"
  | "\<not> header_short e" "num_channels (header e) \<noteq> 0" "bits (header e) div 8 \<noteq> 0"
      "length (stored e) \<le> allocated e" "samples_short e"
      "wav_extract e t =
         (Returned,
          header_events @
          [DBG ''read track.num_samples'',
           DBG ''bits: %d num_channels: %d sample_rate: %d num_samples: %d'',
           Fseek 44, Malloc (allocated e), Fread (sample_size e) (sample_count e),
           DBG ''failed to read track.samples'', Free_samples,
           Fclose, Unlink t, EventEnd, DBG ''done''])"
  | "\<not> header_short e" "num_channels (header e) \<noteq> 0" "bits (header e) div 8 \<noteq> 0"
      "length (stored e) \<le> allocated e" "\<not> samples_short e"
      "wav_extract e t =
         (Returned,
          header_events @
          [DBG ''read track.num_samples'',
           DBG ''bits: %d num_channels: %d sample_rate: %d num_samples: %d'',
           Fseek 44, Malloc (allocated e), Fread (sample_size e) (sample_count e),
           DBG ''read track.samples'',
           TtsOutput ((header e)\<lparr>num_samples := frames (header e), samples := stored e\<rparr>)
             SPD_AUDIO_LE,
           DBG ''output finished'', Free_samples,
           Fclose, Unlink t, EventEnd, DBG ''done''])"
proof (cases "header_short e")
  case True
  note hs = True
  show ?thesis
  proof (cases "snd (fread (audio_fp e) 34 2 1) \<noteq> 1")
    case True
    from wav_extract_short_bits [OF True, of t] hs show ?thesis
      by (intro that(1) [of "[Fseek 34, Fread 2 1]" "''failed to read track.bits''"])
         (simp_all add: header_events_def)
  next
    case b: False
    show ?thesis
    proof (cases "snd (fread (audio_fp e) 22 2 1) \<noteq> 1")
      case True
      from wav_extract_short_channels [OF _ True, of t] b hs show ?thesis
        by (intro that(1) [of "[Fseek 34, Fread 2 1, DBG ''read track.bits'', Fseek 22,
              Fread 2 1]" "''failed to read track.num_channels''"])
           (simp_all add: header_events_def)
    next
      case c: False
      show ?thesis
      proof (cases "snd (fread (audio_fp e) 24 4 1) \<noteq> 1")
        case True
        from wav_extract_short_rate [OF _ _ True, of t] b c hs show ?thesis
          by (intro that(1) [of "[Fseek 34, Fread 2 1, DBG ''read track.bits'', Fseek 22,
                Fread 2 1, DBG ''read track.num_channels'', Fseek 24, Fread 4 1]"
                "''failed to read track.sample_rate''"])
             (simp_all add: header_events_def)
      next
        case r: False
        with hs b c have "snd (fread (audio_fp e) 40 4 1) \<noteq> 1"
          by (simp add: header_short_def wav_offsets)
        from wav_extract_short_size [OF _ _ _ this, of t] b c r hs show ?thesis
          by (intro that(1) [of header_events "''failed to read track.num_samples''"])
             simp_all
      qed
    qed
  qed
next
  case False
  note h = wav_extract_header_read [OF False, of t]
  show ?thesis
  proof (cases "num_channels (header e) = 0 \<or> bits (header e) div 8 = 0")
    case True
    with h False show ?thesis
      by (intro that(2)) (simp_all add: compute_num_samples_zero emit_def)
  next
    case nz: False
    then have c: "num_channels (header e) \<noteq> 0" and b: "bits (header e) div 8 \<noteq> 0"
      by simp_all
    note h2 = h [unfolded compute_num_samples_nonzero [OF c b]]
    show ?thesis
    proof (cases "allocated e < length (stored e)")
      case True
      with h2 False c b show ?thesis
        by (intro that(3)) (simp_all add: read_samples_overrun emit_def)
    next
      case fit: False
      show ?thesis
      proof (cases "samples_short e")
        case True
        with h2 False c b fit show ?thesis
          by (intro that(4)) (simp_all add: read_samples_short emit_def)
      next
        case ok: False
        with h2 False c b fit show ?thesis
          by (intro that(5)) (simp_all add: read_samples_delivered emit_def)
      qed
    qed
  qed
qed

subsection \<open>The paths of a request\<close>

lemma synthesize_cases
  [case_names no_file no_command no_process nonzero_exit no_output extracting]:
  obtains
    "mkstemp e tmp_template = None"
      "synthesize e data g path =
         (Returned, request_start @
            [DBG ''temporary .wav file creation failed'', EventEnd, DBG ''done''])"
  | template where "mkstemp e tmp_template = Some template" "\<not> asprintf_ok e"
      "synthesize e data g path =
         (Returned, request_start @
            [Close_fd, DBG ''failed to construct command line'',
             Unlink template, EventEnd, DBG ''done''])"
  | template where "mkstemp e tmp_template = Some template" "asprintf_ok e" "\<not> popen_ok e"
      "synthesize e data g path =
         (Returned, request_start @
            [Close_fd, DBG ''executing: %s'',
             Popen (command_line (OpenjtalkDictionaryDirectory g) path template),
             DBG ''failed to execute open_jtalk'',
             Unlink template, EventEnd, DBG ''done''])"
  | template where "mkstemp e tmp_template = Some template" "asprintf_ok e" "popen_ok e"
      "pclose_status e \<noteq> 0"
      "synthesize e data g path =
         (Returned, request_start @
            [Close_fd, DBG ''executing: %s'',
             Popen (command_line (OpenjtalkDictionaryDirectory g) path template),
             Fprintf (module_strip_ssml e data), Pclose,
             DBG ''open_jtalk exited with non-zero code'',
             Unlink template, EventEnd, DBG ''done''])"
  | template where "mkstemp e tmp_template = Some template" "asprintf_ok e" "popen_ok e"
      "pclose_status e = 0" "\<not> fopen_ok e"
      "synthesize e data g path =
         (Returned, request_start @
            [Close_fd, DBG ''executing: %s'',
             Popen (command_line (OpenjtalkDictionaryDirectory g) path template),
             Fprintf (module_strip_ssml e data), Pclose,
             DBG ''output to %s'', Fopen template, DBG ''failed to open wav file'',
             Unlink template, EventEnd, DBG ''done''])"
  | template where "mkstemp e tmp_template = Some template" "asprintf_ok e" "popen_ok e"
      "pclose_status e = 0" "fopen_ok e"
      "synthesize e data g path =
         emit (request_start @
            [Close_fd, DBG ''executing: %s'',
             Popen (command_line (OpenjtalkDictionaryDirectory g) path template),
             Fprintf (module_strip_ssml e data), Pclose,
             DBG ''output to %s'', Fopen template, DBG ''opened wav file''])
           (wav_extract e template)"
proof (cases "mkstemp e tmp_template")
  case None
  then show ?thesis
    by (intro that(1)) (simp_all add: synthesize_def labels request_start_def)
next
  case (Some template)
  note tm = Some
  show ?thesis
  proof (cases "asprintf_ok e")
    case False
    with tm show ?thesis
      by (intro that(2) [of template]) (simp_all add: synthesize_def labels request_start_def)
  next
    case a: True
    show ?thesis
    proof (cases "popen_ok e")
      case False
      with tm a show ?thesis
        by (intro that(3) [of template])
           (simp_all add: synthesize_def labels request_start_def)
    next
      case p: True
      show ?thesis
      proof (cases "pclose_status e = 0")
        case False
        with tm a p show ?thesis
          by (intro that(4) [of template])
             (simp_all add: synthesize_def labels request_start_def)
      next
        case z: True
        show ?thesis
        proof (cases "fopen_ok e")
          case False
          with tm a p z show ?thesis
            by (intro that(5) [of template])
               (simp_all add: synthesize_def labels request_start_def)
        next
          case True
          with tm a p z show ?thesis
            by (intro that(6) [of template])
               (simp_all add: synthesize_def labels request_start_def)
        qed
      qed
    qed
  qed
qed


lemma module_speak_sync_resolved:
  "update_parameters e g = (Returned, g1, t1) \<Longrightarrow> openjtalk_htsvoice_path g1 = Some path \<Longrightarrow>
   module_speak_sync e data g =
     (fst (synthesize e data g1 path), g1,
      DBG ''speaking %s'' # t1 @ snd (synthesize e data g1 path))"
  by (simp add: module_speak_sync_def split_beta)

subsection \<open>Which calls a request makes\<close>

lemma set_voice_events:
  "ev \<in> set (snd (snd (openjtalk_set_voice e voice g))) \<Longrightarrow> is_selection_event ev"
  by (cases "openjtalk_msg_language g")
     (auto simp: openjtalk_set_voice_def Let_def split_beta split: if_splits
           dest: update_htsvoice_path_events [OF surjective_pairing])

lemma set_synthesis_voice_events:
  "ev \<in> set (snd (snd (openjtalk_set_synthesis_voice e name g))) \<Longrightarrow>
   is_selection_event ev \<and> \<not> is_GetVoice ev"
  by (cases "voice_name (msg_settings g)")
     (auto simp: openjtalk_set_synthesis_voice_def split_beta split: if_splits
           dest: update_htsvoice_path_events [OF surjective_pairing])

lemma update_language_events:
  "ev \<in> set (snd (snd (update_language e g))) \<Longrightarrow> is_selection_event ev"
  by (auto simp: update_language_def UPDATE_STRING_PARAMETER_def openjtalk_set_language_def
      Let_def split_beta split: if_splits option.splits dest: set_voice_events)

lemma update_voice_type_events:
  "ev \<in> set (snd (snd (update_voice_type e g))) \<Longrightarrow> is_selection_event ev"
  by (auto simp: update_voice_type_def UPDATE_PARAMETER_def split: if_splits
      dest: set_voice_events)

lemma update_voice_name_events:
  "ev \<in> set (snd (snd (update_voice_name e g))) \<Longrightarrow>
   is_selection_event ev \<and> \<not> is_GetVoice ev"
  by (auto simp: update_voice_name_def UPDATE_STRING_PARAMETER_def
      split: if_splits option.splits dest: set_synthesis_voice_events)

lemma update_parameters_events:
  "ev \<in> set (snd (snd (update_parameters e g))) \<Longrightarrow> is_selection_event ev"
  by (auto simp: update_parameters_def seq_def split_beta split: if_splits
      dest: update_language_events update_voice_type_events update_voice_name_events)


lemma header_events_no_lookup: "ev \<in> set header_events \<Longrightarrow> \<not> is_GetVoice ev"
  by (auto simp: header_events_def)

lemma wav_extract_no_lookup:
  "ev \<in> set (snd (wav_extract e t)) \<Longrightarrow> \<not> is_GetVoice ev"
  by (cases e t rule: wav_extract_cases) (auto dest: header_events_no_lookup)

lemma synthesize_no_lookup:
  "ev \<in> set (snd (synthesize e data g path)) \<Longrightarrow> \<not> is_GetVoice ev"
  by (cases e data g path rule: synthesize_cases)
     (auto simp: request_start_def emit_def dest: wav_extract_no_lookup)

lemma module_speak_sync_lookups:
  assumes "ev \<in> set (snd (snd (module_speak_sync e data g)))" and "is_GetVoice ev"
  shows "ev \<in> set (snd (snd (update_parameters e g)))"
  using assms
  by (auto simp: module_speak_sync_def split_beta split: if_splits option.splits
      dest: synthesize_no_lookup)

text \<open>
  C9. With no language set, \<open>openjtalk_set_voice\<close> stops at its assertion before
  \<open>module_getvoice\<close> is called. In a request with no language set and none requested,
  \<open>module_getvoice\<close> is called nowhere, and a changed voice type ends the request at the
  assertion.
\<close>

theorem C9_no_lookup_without_language:
  "(openjtalk_msg_language g = None \<longrightarrow>
      openjtalk_set_voice e voice g = (AssertFailed, g, [DBG ''Setting voice type %d''])) \<and>
   (openjtalk_msg_language g = None \<and> voice_language (msg_settings g) = None \<longrightarrow>
      (\<forall>ev \<in> set (snd (snd (module_speak_sync e data g))). \<not> is_GetVoice ev) \<and>
      (voice_type_changed g \<longrightarrow> fst (module_speak_sync e data g) = AssertFailed))"
proof (intro conjI impI)
  assume "openjtalk_msg_language g = None"
  then show "openjtalk_set_voice e voice g = (AssertFailed, g, [DBG ''Setting voice type %d''])"
    by (rule set_voice_unset)
next
  assume a: "openjtalk_msg_language g = None \<and> voice_language (msg_settings g) = None"
  define g1 where
    "g1 = g\<lparr>msg_settings_old := (msg_settings_old g)\<lparr>voice_language := None\<rparr>\<rparr>"
  have l: "update_language e g = (Returned, g1, [])"
    using a by (simp add: update_language_def UPDATE_STRING_PARAMETER_def g1_def)
  have g1: "openjtalk_msg_language g1 = None"
    "voice_type (msg_settings_old g1) = voice_type (msg_settings_old g)"
    "msg_settings g1 = msg_settings g"
    using a by (simp_all add: g1_def)
  have t1: "\<not> is_GetVoice ev" if "ev \<in> set (snd (snd (update_parameters e g)))" for ev
  proof (cases "voice_type_changed g")
    case True
    then have "update_voice_type e g1 =
      (AssertFailed,
       g1\<lparr>msg_settings_old := (msg_settings_old g1)\<lparr>voice_type := voice_type (msg_settings g1)\<rparr>\<rparr>,
       [DBG ''Setting voice type %d''])"
      using g1
      by (simp add: update_voice_type_def UPDATE_PARAMETER_def voice_type_changed_def
          openjtalk_set_voice_def)
    with that l show ?thesis by (auto simp: update_parameters_def seq_def)
  next
    case False
    then have "update_voice_type e g1 = (Returned, g1, [])"
      using g1 by (simp add: update_voice_type_unchanged voice_type_changed_def)
    with that l show ?thesis
      by (auto simp: update_parameters_def seq_def split_beta dest: update_voice_name_events)
  qed
  show "\<forall>ev \<in> set (snd (snd (module_speak_sync e data g))). \<not> is_GetVoice ev"
    using t1 module_speak_sync_lookups by blast
  show "fst (module_speak_sync e data g) = AssertFailed" if "voice_type_changed g"
  proof -
    have "fst (update_voice_type e g1) = AssertFailed"
      using that g1 by (simp add: update_voice_type_unset voice_type_changed_def)
    with l have "fst (update_parameters e g) = AssertFailed"
      by (simp add: update_parameters_def seq_def split_beta)
    then show ?thesis by (simp add: module_speak_sync_def split_beta)
  qed
qed

subsection \<open>The examples, evaluated\<close>

lemmas selection_defs =
  update_parameters_def seq_def update_language_def update_voice_type_def
  update_voice_name_def UPDATE_PARAMETER_def UPDATE_STRING_PARAMETER_def
  openjtalk_set_language_def openjtalk_set_voice_def openjtalk_set_synthesis_voice_def
  update_htsvoice_path_def

lemmas request_defs =
  module_speak_sync_def synthesize_def wav_extract_def compute_num_samples_def
  read_samples_def fread_def regular_file_def emit_def FINISH_def TEMPLATE_FINISH_def
  FP_FINISH_def tmp_template_def command_line_def
  WAV_START_BITS_PER_SAMPLE_def WAV_START_NUM_CHANNELS_def WAV_START_SAMPLE_RATE_def
  WAV_START_SIZE_OF_SAMPLES_def WAV_START_SAMPLES_def

lemmas example_defs =
  example_env_def example_globals_def settled_globals_def unset_globals_def
  stale_globals_def withdrawn_globals_def example_wav_def wav_header_def twelve_bit_wav_def
  zero_channel_wav_def wrapped_size_wav_def
  four_bit_wav_def cut_in_header_def cut_in_samples_def

text \<open>A voice type is requested before any language: the assertion fails, nothing is looked up.\<close>

theorem C9_no_lookup_without_language_witness:
  "openjtalk_msg_language unset_globals = None \<and>
   voice_language (msg_settings unset_globals) = None \<and>
   voice_type_changed unset_globals \<and>
   fst (module_speak_sync example_env ''hello'' unset_globals) = AssertFailed \<and>
   snd (snd (module_speak_sync example_env ''hello'' unset_globals)) =
     [DBG ''speaking %s'', DBG ''Setting voice type %d'']"
  using C9_no_lookup_without_language [of unset_globals example_env 1 "''hello''"]
  by (simp add: example_defs selection_defs request_defs voice_type_changed_def)

text \<open>
  The first request with Japanese: the path of female1 is resolved. A request after the
  language has been withdrawn: the path of male1 stays.
\<close>

theorem C7_changed_selection_resolved_again_witness:
  "fst (update_parameters example_env example_globals) = Returned \<and>
   language_changed example_globals \<and>
   \<not> name_changed example_globals \<and>
   openjtalk_msg_language (fst (snd (update_parameters example_env example_globals)))
     = Some ''ja'' \<and>
   openjtalk_htsvoice_path (fst (snd (update_parameters example_env example_globals)))
     = Some ''/voices/female1.htsvoice'' \<and>
   fst (update_parameters example_env withdrawn_globals) = Returned \<and>
   voice_language (msg_settings_old withdrawn_globals) = Some ''ja'' \<and>
   voice_language (msg_settings withdrawn_globals) = None \<and>
   \<not> language_changed withdrawn_globals \<and>
   \<not> voice_type_changed withdrawn_globals \<and>
   \<not> name_changed withdrawn_globals \<and>
   openjtalk_htsvoice_path (fst (snd (update_parameters example_env withdrawn_globals)))
     = Some ''/voices/male1.htsvoice''"
proof -
  have r: "update_parameters example_env example_globals =
             (Returned, fst (snd (update_parameters example_env example_globals)),
              snd (snd (update_parameters example_env example_globals)))"
    by (simp add: example_defs selection_defs Let_def)
  have c: "language_changed example_globals" "\<not> name_changed example_globals"
    by (simp_all add: example_defs language_changed_def name_changed_def)
  have v: "voice_language (msg_settings example_globals) = Some ''ja''"
    "voice_type (msg_settings example_globals) = 1"
    "voice_search_paths example_globals =
       [''/opt/$VOICE/$VOICE.htsvoice'', ''/voices/$VOICE.htsvoice'']"
    by (simp_all add: example_defs)
  have p: "resolve example_env [''/opt/$VOICE/$VOICE.htsvoice'', ''/voices/$VOICE.htsvoice'']
             (module_getvoice example_env ''ja'' 1) = Some ''/voices/female1.htsvoice''"
    by (simp add: example_env_def resolve_def)
  have r0: "fst (update_parameters example_env example_globals) = Returned"
    using r by (metis fst_conv)
  have first: "openjtalk_msg_language (fst (snd (update_parameters example_env example_globals)))
     = Some ''ja'' \<and>
   openjtalk_htsvoice_path (fst (snd (update_parameters example_env example_globals)))
     = Some ''/voices/female1.htsvoice''"
    using C7_changed_selection_resolved_again [OF r] c v p by auto
  have w: "update_parameters example_env withdrawn_globals =
             (Returned, fst (snd (update_parameters example_env withdrawn_globals)),
              snd (snd (update_parameters example_env withdrawn_globals)))"
    by (simp add: example_defs selection_defs Let_def)
  have w0: "fst (update_parameters example_env withdrawn_globals) = Returned"
    using w by (metis fst_conv)
  have n: "\<not> language_changed withdrawn_globals" "\<not> voice_type_changed withdrawn_globals"
    "\<not> name_changed withdrawn_globals"
    "voice_language (msg_settings_old withdrawn_globals) = Some ''ja''"
    "voice_language (msg_settings withdrawn_globals) = None"
    "openjtalk_htsvoice_path withdrawn_globals = Some ''/voices/male1.htsvoice''"
    by (simp_all add: example_defs language_changed_def voice_type_changed_def
        name_changed_def)
  have second: "openjtalk_htsvoice_path
                  (fst (snd (update_parameters example_env withdrawn_globals)))
                  = Some ''/voices/male1.htsvoice''"
    using C7_changed_selection_resolved_again [OF w] n by simp
  from first second r0 w0 c n show ?thesis by simp
qed

text \<open>
  C7 as stated fails. After a request with male1 the name nobody is requested: the update
  step calls no lookup and no file test, the path of male1 stays, and the engine is
  started with it, although the search for the selection's language and voice type gives
  the path of female1.
\<close>

theorem C7_unregistered_name_keeps_path:
  "name_changed stale_globals \<and>
   snd (snd (update_parameters example_env stale_globals)) =
     [DBG ''Setting voice name %s (%s)'', ExistsVoice ''nobody''] \<and>
   openjtalk_htsvoice_path (fst (snd (update_parameters example_env stale_globals)))
     = Some ''/voices/male1.htsvoice'' \<and>
   resolve example_env (voice_search_paths stale_globals)
     (module_getvoice example_env ''ja'' 1) = Some ''/voices/female1.htsvoice'' \<and>
   Popen ''open_jtalk -x /var/lib/mecab/dic/open-jtalk -m /voices/male1.htsvoice -ow /tmp/speechd-openjtalk-a1b2c3''
     \<in> set (snd (snd (module_speak_sync example_env ''hello'' stale_globals)))"
proof -
  have u: "update_parameters example_env stale_globals =
    (Returned, stale_globals\<lparr>msg_settings_old := msg_settings stale_globals\<rparr>,
     [DBG ''Setting voice name %s (%s)'', ExistsVoice ''nobody''])"
    by (simp add: example_defs selection_defs)
  have n: "name_changed stale_globals"
    by (simp add: example_defs name_changed_def)
  have p: "resolve example_env (voice_search_paths stale_globals)
     (module_getvoice example_env ''ja'' 1) = Some ''/voices/female1.htsvoice''"
    by (simp add: example_defs resolve_def)
  have s: "Popen ''open_jtalk -x /var/lib/mecab/dic/open-jtalk -m /voices/male1.htsvoice -ow /tmp/speechd-openjtalk-a1b2c3''
     \<in> set (snd (synthesize example_env ''hello''
            (stale_globals\<lparr>msg_settings_old := msg_settings stale_globals\<rparr>)
            ''/voices/male1.htsvoice''))"
    by (cases example_env "''hello''"
          "stale_globals\<lparr>msg_settings_old := msg_settings stale_globals\<rparr>"
          "''/voices/male1.htsvoice''" rule: synthesize_cases)
       (simp_all add: example_defs command_line_def emit_def tmp_template_def)
  have m: "openjtalk_htsvoice_path (stale_globals\<lparr>msg_settings_old := msg_settings stale_globals\<rparr>)
            = Some ''/voices/male1.htsvoice''"
    by (simp add: example_defs)
  show ?thesis
    using n p s u module_speak_sync_resolved [OF u m, of "''hello''"] m by simp
qed

subsection \<open>What a returning extraction leaves behind\<close>

lemma selection_event_simps:
  "is_selection_event ev \<Longrightarrow> ev \<noteq> Unlink x"
  "is_selection_event ev \<Longrightarrow> ev \<noteq> SpeakOk"
  "is_selection_event ev \<Longrightarrow> ev \<noteq> SpeakError"
  "is_selection_event ev \<Longrightarrow> ev \<noteq> EventEnd"
  "is_selection_event ev \<Longrightarrow> \<not> is_TtsOutput ev"
  "is_selection_event ev \<Longrightarrow> ev \<noteq> Fopen x"
  by (cases ev; simp)+

lemma occurrences_simps:
  "occurrences ev [] = 0"
  "occurrences ev (x # xs) = (if x = ev then 1 else 0) + occurrences ev xs"
  "occurrences ev (xs @ ys) = occurrences ev xs + occurrences ev ys"
  by (simp_all add: occurrences_def)

lemma occurrences_absent: "ev \<notin> set xs \<Longrightarrow> occurrences ev xs = 0"
  by (induction xs) (auto simp: occurrences_simps)

lemma header_events_kinds:
  "ev \<in> set header_events \<Longrightarrow>
   ev \<noteq> Unlink x \<and> ev \<noteq> SpeakOk \<and> ev \<noteq> SpeakError \<and> ev \<noteq> EventEnd \<and>
   \<not> is_TtsOutput ev \<and> \<not> is_heap ev \<and> \<not> is_failure ev"
  by (auto simp: header_events_def failure_messages_def)

text \<open>What every request that reaches the extraction leaves behind.\<close>

lemma wav_extract_returned:
  assumes "fst (wav_extract e t) = Returned"
  shows "occurrences (Unlink t) (snd (wav_extract e t)) = 1 \<and>
         (\<forall>x. Unlink x \<in> set (snd (wav_extract e t)) \<longrightarrow> x = t) \<and>
         occurrences EventEnd (snd (wav_extract e t)) = 1 \<and>
         occurrences SpeakOk (snd (wav_extract e t)) = 0 \<and>
         occurrences SpeakError (snd (wav_extract e t)) = 0 \<and>
         (\<exists>pre. snd (wav_extract e t) = pre @ [Unlink t, EventEnd, DBG ''done'']) \<and>
         ((\<exists>ev \<in> set (snd (wav_extract e t)). is_TtsOutput ev) \<longleftrightarrow>
            \<not> header_short e \<and> \<not> samples_short e) \<and>
         (header_short e \<or> samples_short e \<longrightarrow>
            (\<exists>ev \<in> set (snd (wav_extract e t)). is_failure ev))"
proof (cases e t rule: wav_extract_cases)
  case (short_header pre m)
  have k: "occurrences ev pre = 0" if "ev \<notin> set header_events" for ev
    using that short_header(3) by (intro occurrences_absent) auto
  have n: "\<not> is_TtsOutput ev \<and> ev \<noteq> Unlink x" if "ev \<in> set pre" for ev x
    using that short_header(3) header_events_kinds [of ev] by auto
  show ?thesis
    unfolding short_header(2) using short_header(1,4) n
    by (auto simp: occurrences_simps k header_events_def failure_messages_def)
next
  case zero
  with assms show ?thesis by simp
next
  case overrun
  with assms show ?thesis by simp
next
  case short_samples
  show ?thesis
    unfolding short_samples(6) using short_samples(1,5)
    by (auto simp: occurrences_simps header_events_def failure_messages_def)
next
  case delivered
  show ?thesis
    unfolding delivered(6) using delivered(1,5)
    by (auto simp: occurrences_simps header_events_def failure_messages_def)
qed

subsection \<open>What a request leaves behind\<close>


lemma synthesize_outcome:
  "early_failure e \<Longrightarrow> fst (synthesize e data g path) = Returned"
proof (cases e data g path rule: synthesize_cases)
  case (extracting template)
  moreover assume "early_failure e"
  ultimately have "header_short e" by (simp add: early_failure_def)
  then have "fst (wav_extract e template) = Returned"
    by (cases e template rule: wav_extract_cases) simp_all
  with extracting show ?thesis by (simp add: emit_def)
qed simp_all



lemma synthesize_unlink:
  assumes "fst (synthesize e data g path) = Returned"
    and "mkstemp e tmp_template = Some template"
  shows "occurrences (Unlink template) (snd (synthesize e data g path)) = 1 \<and>
         (\<forall>x. Unlink x \<in> set (snd (synthesize e data g path)) \<longrightarrow> x = template) \<and>
         (\<exists>pre. snd (synthesize e data g path) = pre @ [Unlink template, EventEnd, DBG ''done''])"
proof (cases e data g path rule: synthesize_cases)
  case no_file
  with assms show ?thesis by simp
next
  case (extracting template')
  with assms have t: "template' = template" by simp
  from extracting have r: "fst (wav_extract e template) = Returned"
    using assms by (simp add: emit_def t)
  from wav_extract_returned [OF r] obtain pre where
    pre: "snd (wav_extract e template) = pre @ [Unlink template, EventEnd, DBG ''done'']"
    by blast
  have "\<exists>pre'. snd (synthesize e data g path) = pre' @ [Unlink template, EventEnd, DBG ''done'']"
    unfolding extracting(6) emit_def pre t
    by (intro exI [of _ "_ @ pre"]) simp
  moreover have "occurrences (Unlink template) (snd (synthesize e data g path)) = 1"
    using wav_extract_returned [OF r]
    by (simp add: extracting(6) t emit_def occurrences_simps request_start_def)
  moreover have "\<forall>x. Unlink x \<in> set (snd (synthesize e data g path)) \<longrightarrow> x = template"
    using wav_extract_returned [OF r]
    by (auto simp: extracting(6) t emit_def request_start_def)
  ultimately show ?thesis by blast
qed (use assms in \<open>auto simp: occurrences_simps request_start_def\<close>)

subsection \<open>The temporary file and the engine\<close>

lemma update_trace_absent:
  assumes "update_parameters e g = (oc, g1, t1)" and "\<not> is_selection_event ev"
  shows "occurrences ev t1 = 0" "ev \<notin> set t1"
proof -
  show "ev \<notin> set t1"
    using update_parameters_events [of ev e g] assms by auto
  then show "occurrences ev t1 = 0" by (rule occurrences_absent)
qed

lemma update_trace_kinds:
  assumes "update_parameters e g = (oc, g1, t1)"
  shows "Unlink x \<notin> set t1" "Fopen x \<notin> set t1" "ev \<in> set t1 \<Longrightarrow> \<not> is_TtsOutput ev"
  using update_parameters_events [of _ e g] assms selection_event_simps
  by fastforce+

text \<open>
  In a request that has created its temporary file: a failure to build the command line,
  to start the engine, a non-zero exit, a failure to open the output, a short read in the
  header, and a header with at least one channel and 8 bits whose block fits its buffer,
  all let the request return; and every request that returns has unlinked the file exactly
  once, has unlinked nothing else, and has done so just before it reports its end.
\<close>

lemma temporary_file_deleted_once_on_return:
  assumes "update_parameters e g = (Returned, g1, t1)"
    and "openjtalk_htsvoice_path g1 = Some path"
    and "mkstemp e tmp_template = Some template"
  shows "(\<not> asprintf_ok e \<or> \<not> popen_ok e \<or> pclose_status e \<noteq> 0 \<or> \<not> fopen_ok e \<or>
          header_short e \<or>
          (num_channels (header e) \<noteq> 0 \<and> 8 \<le> unat (bits (header e)) \<and>
           length (stored e) \<le> allocated e)
            \<longrightarrow> fst (module_speak_sync e data g) = Returned) \<and>
         (fst (module_speak_sync e data g) = Returned \<longrightarrow>
            occurrences (Unlink template) (snd (snd (module_speak_sync e data g))) = 1 \<and>
            (\<forall>x. Unlink x \<in> set (snd (snd (module_speak_sync e data g))) \<longrightarrow> x = template) \<and>
            (\<exists>pre. snd (snd (module_speak_sync e data g)) =
                     pre @ [Unlink template, EventEnd, DBG ''done'']))"
proof -
  note m = module_speak_sync_resolved [OF assms(1,2), of data]
  have a: "fst (module_speak_sync e data g) = Returned"
    if "\<not> asprintf_ok e \<or> \<not> popen_ok e \<or> pclose_status e \<noteq> 0 \<or> \<not> fopen_ok e \<or>
        header_short e \<or>
        (num_channels (header e) \<noteq> 0 \<and> 8 \<le> unat (bits (header e)) \<and>
         length (stored e) \<le> allocated e)"
  proof (cases "early_failure e")
    case True
    then show ?thesis by (simp add: m synthesize_outcome)
  next
    case False
    with that have ok: "num_channels (header e) \<noteq> 0" "bits (header e) div 8 \<noteq> 0"
      "length (stored e) \<le> allocated e"
      by (auto simp: early_failure_def bits_div_8_zero)
    have w: "fst (wav_extract e template) = Returned"
      using ok by (cases e template rule: wav_extract_cases) simp_all
    from False assms(3) show ?thesis
      by (cases e data g1 path rule: synthesize_cases)
         (simp_all add: m early_failure_def emit_def w)
  qed
  have b: "occurrences (Unlink template) (snd (snd (module_speak_sync e data g))) = 1 \<and>
            (\<forall>x. Unlink x \<in> set (snd (snd (module_speak_sync e data g))) \<longrightarrow> x = template) \<and>
            (\<exists>pre. snd (snd (module_speak_sync e data g)) =
                     pre @ [Unlink template, EventEnd, DBG ''done''])"
    if "fst (module_speak_sync e data g) = Returned"
  proof -
    from that have r: "fst (synthesize e data g1 path) = Returned" by (simp add: m)
    from synthesize_unlink [OF r assms(3)] obtain pre where
      u: "occurrences (Unlink template) (snd (synthesize e data g1 path)) = 1"
        "\<forall>x. Unlink x \<in> set (snd (synthesize e data g1 path)) \<longrightarrow> x = template"
        "snd (synthesize e data g1 path) = pre @ [Unlink template, EventEnd, DBG ''done'']"
      by blast
    have "occurrences (Unlink template) (snd (snd (module_speak_sync e data g))) = 1"
      using u(1) update_trace_absent(1) [OF assms(1), of "Unlink template"]
      by (simp add: m occurrences_simps)
    moreover have "\<forall>x. Unlink x \<in> set (snd (snd (module_speak_sync e data g))) \<longrightarrow> x = template"
      using u(2) update_trace_kinds(1) [OF assms(1)] by (auto simp: m)
    moreover have "\<exists>pre'. snd (snd (module_speak_sync e data g)) =
                     pre' @ [Unlink template, EventEnd, DBG ''done'']"
      unfolding m u(3) by (intro exI [of _ "DBG ''speaking %s'' # t1 @ pre"]) simp
    ultimately show ?thesis by blast
  qed
  show ?thesis using a b by blast
qed

text \<open>
  C5. A track is handed to the playback server only if the engine was started and its exit
  status was 0. If the engine does not start or exits with another status, the request
  returns, hands over no track, does not open the output, logs the failure and unlinks
  the temporary file once.
\<close>

theorem C5_engine_failure_ends_request:
  assumes "update_parameters e g = (Returned, g1, t1)"
    and "openjtalk_htsvoice_path g1 = Some path"
    and "mkstemp e tmp_template = Some template"
    and "asprintf_ok e"
  shows "((\<exists>ev \<in> set (snd (snd (module_speak_sync e data g))). is_TtsOutput ev) \<longrightarrow>
            popen_ok e \<and> pclose_status e = 0) \<and>
         (\<not> popen_ok e \<or> pclose_status e \<noteq> 0 \<longrightarrow>
            fst (module_speak_sync e data g) = Returned \<and>
            (\<forall>ev \<in> set (snd (snd (module_speak_sync e data g))). \<not> is_TtsOutput ev) \<and>
            (\<forall>x. Fopen x \<notin> set (snd (snd (module_speak_sync e data g)))) \<and>
            (\<exists>ev \<in> set (snd (snd (module_speak_sync e data g))). is_failure ev) \<and>
            occurrences (Unlink template) (snd (snd (module_speak_sync e data g))) = 1)"
proof -
  note m = module_speak_sync_resolved [OF assms(1,2), of data]
  have f: "fst (module_speak_sync e data g) = Returned \<and>
            (\<forall>ev \<in> set (snd (snd (module_speak_sync e data g))). \<not> is_TtsOutput ev) \<and>
            (\<forall>x. Fopen x \<notin> set (snd (snd (module_speak_sync e data g)))) \<and>
            (\<exists>ev \<in> set (snd (snd (module_speak_sync e data g))). is_failure ev) \<and>
            occurrences (Unlink template) (snd (snd (module_speak_sync e data g))) = 1"
    if bad: "\<not> popen_ok e \<or> pclose_status e \<noteq> 0"
  proof (cases e data g1 path rule: synthesize_cases)
    case (no_process template')
    then show ?thesis
      using assms(3) update_trace_absent(1) [OF assms(1), of "Unlink template"]
        update_trace_kinds [OF assms(1)]
      by (auto simp: m occurrences_simps request_start_def failure_messages_def)
  next
    case (nonzero_exit template')
    then show ?thesis
      using assms(3) update_trace_absent(1) [OF assms(1), of "Unlink template"]
        update_trace_kinds [OF assms(1)]
      by (auto simp: m occurrences_simps request_start_def failure_messages_def)
  qed (use bad assms(3,4) in simp_all)
  then have "popen_ok e \<and> pclose_status e = 0"
    if "\<exists>ev \<in> set (snd (snd (module_speak_sync e data g))). is_TtsOutput ev"
    using that by blast
  with f show ?thesis by blast
qed


lemma settled_update:
  "update_parameters e settled_globals = (Returned, settled_globals, [])"
  by (simp add: example_defs selection_defs)

text \<open>
  C4 does not hold of the code. The temporary file is created, the engine exits with
  status 0 and its output has a header with no channel: the process dies in the division,
  right after the fourth header read, and the file is never unlinked.
\<close>

theorem C4_zero_channels_leave_file:
  "mkstemp (example_env\<lparr>audio_fp := regular_file zero_channel_wav\<rparr>) tmp_template
     = Some ''/tmp/speechd-openjtalk-a1b2c3'' \<and>
   module_speak_sync (example_env\<lparr>audio_fp := regular_file zero_channel_wav\<rparr>) ''hello''
       settled_globals =
     (DivisionByZero, settled_globals,
      [DBG ''speaking %s'', SpeakOk, EventBegin, StripSsml, Umask 63,
       Mkstemp ''/tmp/speechd-openjtalk-XXXXXX'', Close_fd, DBG ''executing: %s'',
       Popen ''open_jtalk -x /var/lib/mecab/dic/open-jtalk -m /voices/male1.htsvoice -ow /tmp/speechd-openjtalk-a1b2c3'',
       Fprintf ''hello'', Pclose, DBG ''output to %s'',
       Fopen ''/tmp/speechd-openjtalk-a1b2c3'', DBG ''opened wav file'',
       Fseek 34, Fread 2 1, DBG ''read track.bits'', Fseek 22, Fread 2 1,
       DBG ''read track.num_channels'', Fseek 24, Fread 4 1,
       DBG ''read track.sample_rate'', Fseek 40, Fread 4 1]) \<and>
   occurrences (Unlink ''/tmp/speechd-openjtalk-a1b2c3'')
     (snd (snd (module_speak_sync
        (example_env\<lparr>audio_fp := regular_file zero_channel_wav\<rparr>) ''hello''
        settled_globals))) = 0"
proof -
  have m: "module_speak_sync (example_env\<lparr>audio_fp := regular_file zero_channel_wav\<rparr>)
       ''hello'' settled_globals =
     (DivisionByZero, settled_globals,
      [DBG ''speaking %s'', SpeakOk, EventBegin, StripSsml, Umask 63,
       Mkstemp ''/tmp/speechd-openjtalk-XXXXXX'', Close_fd, DBG ''executing: %s'',
       Popen ''open_jtalk -x /var/lib/mecab/dic/open-jtalk -m /voices/male1.htsvoice -ow /tmp/speechd-openjtalk-a1b2c3'',
       Fprintf ''hello'', Pclose, DBG ''output to %s'',
       Fopen ''/tmp/speechd-openjtalk-a1b2c3'', DBG ''opened wav file'',
       Fseek 34, Fread 2 1, DBG ''read track.bits'', Fseek 22, Fread 2 1,
       DBG ''read track.num_channels'', Fseek 24, Fread 4 1,
       DBG ''read track.sample_rate'', Fseek 40, Fread 4 1])"
    by (simp add: module_speak_sync_def settled_update)
       (simp add: example_defs request_defs)
  show ?thesis unfolding m by (simp add: occurrences_simps example_defs tmp_template_def)
qed

text \<open>
  The engine exits with status 2: the request returns, no track is handed over, the file
  is unlinked once.
\<close>

theorem C5_engine_failure_ends_request_witness:
  "update_parameters (example_env\<lparr>pclose_status := 2\<rparr>) settled_globals
     = (Returned, settled_globals, []) \<and>
   openjtalk_htsvoice_path settled_globals = Some ''/voices/male1.htsvoice'' \<and>
   mkstemp (example_env\<lparr>pclose_status := 2\<rparr>) tmp_template
     = Some ''/tmp/speechd-openjtalk-a1b2c3'' \<and>
   asprintf_ok (example_env\<lparr>pclose_status := 2\<rparr>) \<and>
   pclose_status (example_env\<lparr>pclose_status := 2\<rparr>) = 2 \<and>
   fst (module_speak_sync (example_env\<lparr>pclose_status := 2\<rparr>) ''hello'' settled_globals)
     = Returned \<and>
   filter is_TtsOutput
     (snd (snd (module_speak_sync (example_env\<lparr>pclose_status := 2\<rparr>) ''hello''
        settled_globals))) = [] \<and>
   occurrences (Unlink ''/tmp/speechd-openjtalk-a1b2c3'')
     (snd (snd (module_speak_sync (example_env\<lparr>pclose_status := 2\<rparr>) ''hello''
        settled_globals))) = 1"
proof -
  have p: "openjtalk_htsvoice_path settled_globals = Some ''/voices/male1.htsvoice''"
    by (simp add: example_defs)
  have m: "mkstemp (example_env\<lparr>pclose_status := 2\<rparr>) tmp_template
             = Some ''/tmp/speechd-openjtalk-a1b2c3''"
    by (simp add: example_defs)
  have a: "asprintf_ok (example_env\<lparr>pclose_status := 2\<rparr>)"
    by (simp add: example_defs)
  have s: "pclose_status (example_env\<lparr>pclose_status := 2\<rparr>) = 2"
    by simp
  from C5_engine_failure_ends_request [OF settled_update p m a, of "''hello''"] p m a s
  show ?thesis by (simp add: settled_update filter_empty_conv)
qed

subsection \<open>Failures and the signals of a request\<close>




subsection \<open>The division\<close>

lemma fread_regular_file:
  "fread (regular_file content) off sz n =
     (take (sz * n) (drop off content),
      if sz = 0 then 0 else min (length content - off) (sz * n) div sz)"
  by (simp add: fread_def regular_file_def)

lemma header_short_regular_file:
  "audio_fp e = regular_file content \<Longrightarrow> header_short e \<longleftrightarrow> length content < 44"
  by (auto simp: header_short_def fread_regular_file wav_offsets min_def)

text \<open>
  C10. Once the four header fields are read, the division is reached with whatever the
  file holds: with at least one channel and at least 8 bits the process does not die in it,
  and with no channel or fewer than 8 bits it does, right after the fourth read. A short
  header read ends the request before the division.
\<close>

theorem C10_division_unguarded:
  "(\<not> header_short e \<and> 1 \<le> unat (num_channels (header e)) \<and> 8 \<le> unat (bits (header e)) \<longrightarrow>
      fst (wav_extract e t) \<noteq> DivisionByZero) \<and>
   (\<not> header_short e \<and> (num_channels (header e) = 0 \<or> unat (bits (header e)) < 8) \<longrightarrow>
      wav_extract e t = (DivisionByZero, header_events)) \<and>
   (header_short e \<longrightarrow> fst (wav_extract e t) \<noteq> DivisionByZero)"
proof -
  have c: "1 \<le> unat (num_channels (header e)) \<longleftrightarrow> num_channels (header e) \<noteq> 0"
    using unat_eq_0 [of "num_channels (header e)"] by auto
  show ?thesis
    by (cases e t rule: wav_extract_cases) (auto simp: bits_div_8_zero c)
qed

subsection \<open>The sample buffer\<close>

lemma stored_complete:
  assumes "\<not> samples_short e" and "sample_size e \<noteq> 0"
  shows "length (stored e) = sample_size e * sample_count e"
proof -
  let ?got = "take (sample_size e * sample_count e)
                (audio_fp e WAV_START_SAMPLES (sample_size e * sample_count e))"
  have s: "stored e = ?got" by (simp add: stored_def fread_def Let_def)
  have le: "length ?got \<le> sample_size e * sample_count e" by simp
  from assms have "length ?got div sample_size e = sample_count e"
    by (simp add: samples_short_def fread_def Let_def)
  then have "sample_size e * sample_count e \<le> length ?got"
    using assms(2) by (metis mult.commute div_times_less_eq_dividend)
  with le show ?thesis unfolding s by simp
qed

lemma sample_size_unat: "sample_size e = unat (bits (header e)) div 8"
  by (simp add: sample_size_def unat_div)

lemma sample_count_unat:
  "sample_count e = unat (frames (header e)) * unat (num_channels (header e))"
  by (simp add: sample_count_def frames_times_channels)

lemma allocated_exact:
  assumes "8 dvd unat (bits (header e))"
    and "unat (frames (header e)) * unat (num_channels (header e)) * unat (bits (header e))
           < 2 ^ 32"
  shows "allocated e = sample_size e * sample_count e"
proof -
  let ?n = "frames (header e)" and ?c = "num_channels (header e)" and ?b = "bits (header e)"
  have "unat (?n * ucast ?c * ucast ?b) = unat (?n * ucast ?c) * unat (ucast ?b :: 32 word)"
    using assms(2)
    by (intro unat_mult_lem [THEN iffD1]) (simp add: frames_times_channels unat_ucast_16_32)
  then have "unat (?n * ucast ?c * ucast ?b) = unat ?n * unat ?c * unat ?b"
    by (simp add: frames_times_channels unat_ucast_16_32)
  then have "allocated e = unat ?n * unat ?c * unat ?b div 8"
    by (simp add: allocated_def unat_div)
  also have "\<dots> = unat ?n * unat ?c * (unat ?b div 8)"
    using assms(1) by (simp add: div_mult_swap)
  finally show ?thesis by (simp add: sample_size_unat sample_count_unat ac_simps)
qed

text \<open>
  C3, as amended. For a track handed to the playback server, the bytes read into the
  buffer are exactly \<open>num_samples * num_channels * (bits / 8)\<close>; the size passed to
  \<open>malloc\<close> is at least that, and is equal to it when \<open>bits\<close> is a multiple of 8 and
  \<open>num_samples * num_channels * bits\<close> is below \<open>2 ^ 32\<close>.
\<close>

theorem C3_bytes_read_and_allocated:
  assumes "TtsOutput track format \<in> set (snd (wav_extract e t))"
  shows "length (samples track) =
           unat (num_samples track) * unat (num_channels track) * (unat (bits track) div 8) \<and>
         (\<forall>n. Malloc n \<in> set (snd (wav_extract e t)) \<longrightarrow>
            length (samples track) \<le> n \<and>
            (8 dvd unat (bits track) \<and>
             unat (num_samples track) * unat (num_channels track) * unat (bits track) < 2 ^ 32
               \<longrightarrow> n = unat (num_samples track) * unat (num_channels track)
                          * (unat (bits track) div 8)))"
proof (cases e t rule: wav_extract_cases)
  case (short_header pre m)
  have "TtsOutput track format \<notin> set pre"
    using short_header(3) header_events_kinds [of "TtsOutput track format"] by auto
  with assms short_header(2) show ?thesis by auto
next
  case zero
  with assms show ?thesis by (auto simp: header_events_def)
next
  case overrun
  with assms show ?thesis by (auto simp: header_events_def)
next
  case short_samples
  with assms show ?thesis by (auto simp: header_events_def)
next
  case delivered
  from assms have tr: "track = (header e)\<lparr>num_samples := frames (header e), samples := stored e\<rparr>"
    unfolding delivered(6) by (auto simp: header_events_def)
  have m: "n = allocated e" if "Malloc n \<in> set (snd (wav_extract e t))" for n
    using that unfolding delivered(6) by (auto simp: header_events_def)
  have sz: "sample_size e \<noteq> 0"
    using delivered(3) by (simp add: sample_size_def unat_eq_0)
  have len: "length (samples track) = sample_size e * sample_count e"
    using stored_complete [OF delivered(5) sz] by (simp add: tr)
  have prod: "unat (num_samples track) * unat (num_channels track) * (unat (bits track) div 8)
                = sample_size e * sample_count e"
    by (simp add: tr sample_size_unat sample_count_unat ac_simps)
  have ex: "allocated e = sample_size e * sample_count e"
    if "8 dvd unat (bits track)"
      "unat (num_samples track) * unat (num_channels track) * unat (bits track) < 2 ^ 32"
    using that by (intro allocated_exact) (simp_all add: tr)
  show ?thesis
    using len prod ex m delivered(4) by (auto simp: tr)
qed

subsection \<open>Short reads\<close>

lemmas extract_defs =
  wav_extract_def compute_num_samples_def read_samples_def fread_def regular_file_def
  emit_def FINISH_def TEMPLATE_FINISH_def FP_FINISH_def
  WAV_START_BITS_PER_SAMPLE_def WAV_START_NUM_CHANNELS_def WAV_START_SAMPLE_RATE_def
  WAV_START_SIZE_OF_SAMPLES_def WAV_START_SAMPLES_def

text \<open>
  C3 as stated fails. One channel, 12 bits, 4 bytes of data: the extraction succeeds with
  4 samples of one byte, and the buffer was allocated with \<open>4 * 1 * 12 / 8 = 6\<close> bytes.
\<close>

theorem C3_twelve_bits_allocate_more:
  "wav_extract (example_env\<lparr>audio_fp := regular_file twelve_bit_wav\<rparr>) ''/tmp/x'' =
     (Returned,
      [Fseek 34, Fread 2 1, DBG ''read track.bits'', Fseek 22, Fread 2 1,
       DBG ''read track.num_channels'', Fseek 24, Fread 4 1,
       DBG ''read track.sample_rate'', Fseek 40, Fread 4 1,
       DBG ''read track.num_samples'',
       DBG ''bits: %d num_channels: %d sample_rate: %d num_samples: %d'',
       Fseek 44, Malloc 6, Fread 1 4, DBG ''read track.samples'',
       TtsOutput
         \<lparr>bits = 12, num_channels = 1, sample_rate = 48000, num_samples = 4,
          samples = [1, 2, 3, 4]\<rparr> SPD_AUDIO_LE,
       DBG ''output finished'', Free_samples, Fclose, Unlink ''/tmp/x'',
       EventEnd, DBG ''done'']) \<and>
   (6 :: nat) \<noteq> unat (4 :: 32 word) * unat (1 :: 16 word) * (unat (12 :: 16 word) div 8)"
  by (simp add: extract_defs example_defs)


lemma samples_short_regular_file:
  assumes "audio_fp e = regular_file content" and "sample_size e \<noteq> 0"
    and "44 \<le> length content"
  shows "samples_short e \<longleftrightarrow> length content < 44 + sample_size e * sample_count e"
proof -
  let ?sz = "sample_size e" and ?n = "sample_count e"
  have s: "samples_short e \<longleftrightarrow> min (length content - 44) (?sz * ?n) div ?sz \<noteq> ?n"
    using assms by (simp add: samples_short_def fread_regular_file wav_offsets)
  show ?thesis
  proof (cases "length content < 44 + ?sz * ?n")
    case True
    with assms(3) have "length content - 44 < ?n * ?sz" by (simp add: ac_simps)
    then have "(length content - 44) div ?sz < ?n" by (rule less_mult_imp_div_less)
    with True show ?thesis unfolding s by (simp add: min_def)
  next
    case False
    then have "min (length content - 44) (?sz * ?n) = ?sz * ?n" by simp
    with False assms(2) show ?thesis unfolding s by simp
  qed
qed

lemma header_events_heap: "filter is_heap header_events = []"
  "filter is_TtsOutput header_events = []"
  by (simp_all add: header_events_def)

text \<open>
  A short read in the header ends the extraction with a logged failure, no track and no
  buffer ever allocated. A short read of the sample block, in an extraction that returns,
  frees the buffer right after the failure is logged, before the file is closed, and hands
  over no track. Every extraction that returns has allocated nothing, or has allocated one
  buffer and freed it. A file that ends before offset 44 gives a short header read; one
  that ends inside the sample block gives a short read of the block.
\<close>

lemma short_read_fails_and_frees_on_return:
  "(header_short e \<longrightarrow>
      fst (wav_extract e t) = Returned \<and>
      filter is_heap (snd (wav_extract e t)) = [] \<and>
      filter is_TtsOutput (snd (wav_extract e t)) = [] \<and>
      (\<exists>ev \<in> set (snd (wav_extract e t)). is_failure ev)) \<and>
   (\<not> header_short e \<and> samples_short e \<and> fst (wav_extract e t) = Returned \<longrightarrow>
      filter is_heap (snd (wav_extract e t)) = [Malloc (allocated e), Free_samples] \<and>
      filter is_TtsOutput (snd (wav_extract e t)) = [] \<and>
      (\<exists>pre. snd (wav_extract e t) =
         pre @ [DBG ''failed to read track.samples'', Free_samples,
                Fclose, Unlink t, EventEnd, DBG ''done''])) \<and>
   (fst (wav_extract e t) = Returned \<longrightarrow>
      filter is_heap (snd (wav_extract e t)) = [] \<or>
      filter is_heap (snd (wav_extract e t)) = [Malloc (allocated e), Free_samples]) \<and>
   (\<forall>content. audio_fp e = regular_file content \<longrightarrow>
      (length content < 44 \<longrightarrow> header_short e) \<and>
      (44 \<le> length content \<and> sample_size e \<noteq> 0 \<and>
       length content < 44 + sample_size e * sample_count e \<longrightarrow> samples_short e))"
proof -
  have files: "\<forall>content. audio_fp e = regular_file content \<longrightarrow>
      (length content < 44 \<longrightarrow> header_short e) \<and>
      (44 \<le> length content \<and> sample_size e \<noteq> 0 \<and>
       length content < 44 + sample_size e * sample_count e \<longrightarrow> samples_short e)"
    using header_short_regular_file [of e] samples_short_regular_file [of e] by blast
  have runs: "(header_short e \<longrightarrow>
      fst (wav_extract e t) = Returned \<and>
      filter is_heap (snd (wav_extract e t)) = [] \<and>
      filter is_TtsOutput (snd (wav_extract e t)) = [] \<and>
      (\<exists>ev \<in> set (snd (wav_extract e t)). is_failure ev)) \<and>
   (\<not> header_short e \<and> samples_short e \<and> fst (wav_extract e t) = Returned \<longrightarrow>
      filter is_heap (snd (wav_extract e t)) = [Malloc (allocated e), Free_samples] \<and>
      filter is_TtsOutput (snd (wav_extract e t)) = [] \<and>
      (\<exists>pre. snd (wav_extract e t) =
         pre @ [DBG ''failed to read track.samples'', Free_samples,
                Fclose, Unlink t, EventEnd, DBG ''done''])) \<and>
   (fst (wav_extract e t) = Returned \<longrightarrow>
      filter is_heap (snd (wav_extract e t)) = [] \<or>
      filter is_heap (snd (wav_extract e t)) = [Malloc (allocated e), Free_samples])"
  proof (cases e t rule: wav_extract_cases)
    case (short_header pre m)
    have "filter is_heap pre = []" "filter is_TtsOutput pre = []"
      using short_header(3) header_events_kinds by (auto simp: filter_empty_conv)
    then show ?thesis
      unfolding short_header(2) using short_header(1,4)
      by (auto simp: failure_messages_def)
  next
    case zero
    then show ?thesis by simp
  next
    case overrun
    then show ?thesis by simp
  next
    case short_samples
    show ?thesis
      unfolding short_samples(6) using short_samples(1,5)
      by (simp add: header_events_heap)
  next
    case delivered
    show ?thesis
      unfolding delivered(6) using delivered(1,5)
      by (simp add: header_events_heap)
  qed
  from runs files show ?thesis by blast
qed

subsection \<open>The fixed offsets\<close>

lemma header_regular_file:
  "audio_fp e = regular_file content \<Longrightarrow>
   header e =
     \<lparr>bits = le_word (take 2 (drop 34 content)),
      num_channels = le_word (take 2 (drop 22 content)),
      sample_rate = le_word (take 4 (drop 24 content)),
      num_samples = le_word (take 4 (drop 40 content)),
      samples = []\<rparr>"
  by (simp add: header_def fread_regular_file wav_offsets)

lemma stored_regular_file:
  "audio_fp e = regular_file content \<Longrightarrow>
   stored e = take (sample_size e * sample_count e) (drop 44 content)"
  by (simp add: stored_def fread_regular_file wav_offsets)

lemma wav_extract_regular_file:
  assumes "audio_fp e = regular_file content"
    and "44 \<le> length content"
    and "num_channels (header e) \<noteq> 0"
    and "8 \<le> unat (bits (header e))"
    and "44 + sample_size e * sample_count e \<le> length content"
    and "sample_size e * sample_count e \<le> allocated e"
  shows "header e =
           \<lparr>bits = le_word (take 2 (drop 34 content)),
            num_channels = le_word (take 2 (drop 22 content)),
            sample_rate = le_word (take 4 (drop 24 content)),
            num_samples = le_word (take 4 (drop 40 content)),
            samples = []\<rparr> \<and>
         unat (frames (header e)) =
           unat (num_samples (header e)) div unat (num_channels (header e))
             div (unat (bits (header e)) div 8) \<and>
         sample_size e = unat (bits (header e)) div 8 \<and>
         sample_count e = unat (frames (header e)) * unat (num_channels (header e)) \<and>
         wav_extract e t =
           (Returned,
            [Fseek 34, Fread 2 1, DBG ''read track.bits'',
             Fseek 22, Fread 2 1, DBG ''read track.num_channels'',
             Fseek 24, Fread 4 1, DBG ''read track.sample_rate'',
             Fseek 40, Fread 4 1, DBG ''read track.num_samples'',
             DBG ''bits: %d num_channels: %d sample_rate: %d num_samples: %d'',
             Fseek 44, Malloc (allocated e), Fread (sample_size e) (sample_count e),
             DBG ''read track.samples'',
             TtsOutput
               ((header e)\<lparr>num_samples := frames (header e),
                  samples := take (sample_size e * sample_count e) (drop 44 content)\<rparr>)
               SPD_AUDIO_LE,
             DBG ''output finished'', Free_samples,
             Fclose, Unlink t, EventEnd, DBG ''done''])"
proof -
  have hs: "\<not> header_short e"
    using assms(1,2) by (simp add: header_short_regular_file)
  have b: "bits (header e) div 8 \<noteq> 0"
    using assms(4) by (simp add: bits_div_8_zero)
  then have sz: "sample_size e \<noteq> 0"
    by (simp add: sample_size_def unat_eq_0)
  have ss: "\<not> samples_short e"
    using assms(5) by (simp add: samples_short_regular_file [OF assms(1) sz assms(2)])
  have st: "stored e = take (sample_size e * sample_count e) (drop 44 content)"
    by (rule stored_regular_file [OF assms(1)])
  have fit: "length (stored e) \<le> allocated e"
    using assms(6) by (simp add: st)
  have "wav_extract e t =
         (Returned,
          header_events @
          [DBG ''read track.num_samples'',
           DBG ''bits: %d num_channels: %d sample_rate: %d num_samples: %d'',
           Fseek 44, Malloc (allocated e), Fread (sample_size e) (sample_count e),
           DBG ''read track.samples'',
           TtsOutput ((header e)\<lparr>num_samples := frames (header e), samples := stored e\<rparr>)
             SPD_AUDIO_LE,
           DBG ''output finished'', Free_samples,
           Fclose, Unlink t, EventEnd, DBG ''done''])"
    using hs assms(3) b ss fit by (cases e t rule: wav_extract_cases) simp_all
  then show ?thesis
    using header_regular_file [OF assms(1)]
    by (simp add: st header_events_def unat_frames sample_size_unat sample_count_unat)
qed


subsection \<open>The example files\<close>

lemma example_header:
  "header example_env =
     \<lparr>bits = 16, num_channels = 2, sample_rate = 48000, num_samples = 400, samples = []\<rparr>"
  by (simp add: header_def example_env_def fread_def regular_file_def example_wav_def
      wav_offsets)

lemma example_sizes:
  "sample_size example_env = 2" "sample_count example_env = 200"
  "allocated example_env = 400" "frames (header example_env) = 100"
  by (simp_all add: sample_size_def sample_count_def allocated_def frames_def example_header)

lemma example_extract:
  "wav_extract example_env ''/tmp/x'' =
     (Returned,
      [Fseek 34, Fread 2 1, DBG ''read track.bits'',
       Fseek 22, Fread 2 1, DBG ''read track.num_channels'',
       Fseek 24, Fread 4 1, DBG ''read track.sample_rate'',
       Fseek 40, Fread 4 1, DBG ''read track.num_samples'',
       DBG ''bits: %d num_channels: %d sample_rate: %d num_samples: %d'',
       Fseek 44, Malloc 400, Fread 2 200, DBG ''read track.samples'',
       TtsOutput
         \<lparr>bits = 16, num_channels = 2, sample_rate = 48000, num_samples = 100,
          samples = replicate 400 7\<rparr> SPD_AUDIO_LE,
       DBG ''output finished'', Free_samples,
       Fclose, Unlink ''/tmp/x'', EventEnd, DBG ''done''])"
proof -
  have f: "audio_fp example_env = regular_file example_wav"
    by (simp add: example_env_def)
  have l: "length example_wav = 444"
    by (simp add: example_wav_def)
  have c: "num_channels (header example_env) \<noteq> 0" "8 \<le> unat (bits (header example_env))"
    by (simp_all add: example_header)
  have s: "44 + sample_size example_env * sample_count example_env \<le> length example_wav"
    "sample_size example_env * sample_count example_env \<le> allocated example_env"
    by (simp_all add: example_sizes l)
  have d: "take 400 (drop 44 example_wav) = replicate 400 7"
    by (simp add: example_wav_def)
  have fr: "frames \<lparr>bits = 16, num_channels = 2, sample_rate = 48000, num_samples = 400,
              samples = []\<rparr> = 100"
    by (simp add: frames_def)
  from wav_extract_regular_file [OF f _ c s, of "''/tmp/x''"] f l d
  show ?thesis by (simp add: example_sizes example_header fr)
qed


text \<open>The example file: 400 bytes read, 400 bytes allocated.\<close>

theorem C3_bytes_read_and_allocated_witness:
  "TtsOutput
     \<lparr>bits = 16, num_channels = 2, sample_rate = 48000, num_samples = 100,
      samples = replicate 400 7\<rparr> SPD_AUDIO_LE
     \<in> set (snd (wav_extract example_env ''/tmp/x'')) \<and>
   Malloc 400 \<in> set (snd (wav_extract example_env ''/tmp/x'')) \<and>
   length (replicate 400 (7 :: byte)) =
     unat (100 :: 32 word) * unat (2 :: 16 word) * (unat (16 :: 16 word) div 8) \<and>
   8 dvd unat (16 :: 16 word) \<and>
   (400 :: nat) = unat (100 :: 32 word) * unat (2 :: 16 word) * (unat (16 :: 16 word) div 8)"
proof -
  have t: "TtsOutput
     \<lparr>bits = 16, num_channels = 2, sample_rate = 48000, num_samples = 100,
      samples = replicate 400 7\<rparr> SPD_AUDIO_LE
     \<in> set (snd (wav_extract example_env ''/tmp/x''))"
    unfolding example_extract by simp
  have m: "Malloc 400 \<in> set (snd (wav_extract example_env ''/tmp/x''))"
    unfolding example_extract by simp
  have a: "length (replicate 400 (7 :: byte)) =
     unat (100 :: 32 word) * unat (2 :: 16 word) * (unat (16 :: 16 word) div 8) \<and>
   8 dvd unat (16 :: 16 word) \<and>
   (400 :: nat) = unat (100 :: 32 word) * unat (2 :: 16 word) * (unat (16 :: 16 word) div 8)"
    by simp
  from C3_bytes_read_and_allocated [OF t] t m a show ?thesis by blast
qed

text \<open>A file with no channel, a file with 4 bits per sample, and the example file.\<close>

theorem C10_division_unguarded_witness:
  "\<not> header_short (example_env\<lparr>audio_fp := regular_file zero_channel_wav\<rparr>) \<and>
   num_channels (header (example_env\<lparr>audio_fp := regular_file zero_channel_wav\<rparr>)) = 0 \<and>
   wav_extract (example_env\<lparr>audio_fp := regular_file zero_channel_wav\<rparr>) ''/tmp/x''
     = (DivisionByZero, header_events) \<and>
   \<not> header_short (example_env\<lparr>audio_fp := regular_file four_bit_wav\<rparr>) \<and>
   bits (header (example_env\<lparr>audio_fp := regular_file four_bit_wav\<rparr>)) = 4 \<and>
   wav_extract (example_env\<lparr>audio_fp := regular_file four_bit_wav\<rparr>) ''/tmp/x''
     = (DivisionByZero, header_events) \<and>
   \<not> header_short example_env \<and>
   unat (num_channels (header example_env)) = 2 \<and>
   unat (bits (header example_env)) = 16 \<and>
   fst (wav_extract example_env ''/tmp/x'') = Returned"
proof -
  let ?z = "example_env\<lparr>audio_fp := regular_file zero_channel_wav\<rparr>"
  let ?f = "example_env\<lparr>audio_fp := regular_file four_bit_wav\<rparr>"
  have z: "\<not> header_short ?z" "num_channels (header ?z) = 0"
    by (simp_all add: header_short_regular_file [of _ zero_channel_wav]
        header_regular_file [of _ zero_channel_wav] zero_channel_wav_def wav_header_def)
  have f: "\<not> header_short ?f" "bits (header ?f) = 4"
    by (simp_all add: header_short_regular_file [of _ four_bit_wav]
        header_regular_file [of _ four_bit_wav] four_bit_wav_def wav_header_def)
  have x: "\<not> header_short example_env"
    by (simp add: header_short_regular_file [of _ example_wav] example_env_def example_wav_def)
  have r: "fst (wav_extract example_env ''/tmp/x'') = Returned"
    by (simp add: example_extract)
  from C10_division_unguarded [of ?z "''/tmp/x''"] C10_division_unguarded [of ?f "''/tmp/x''"]
    C10_division_unguarded [of example_env "''/tmp/x''"] z f x r
  show ?thesis by (simp add: example_header)
qed


end
